theory Spec2Isabelle
  imports Main "HOL-Library.AList"
begin

section \<open>Python values\<close>

text \<open>
  The program is \<^verbatim>\<open>ms-graph-email/scripts/email-check.py\<close>. A Python \<^verbatim>\<open>str\<close> is a
  sequence of Unicode code points, and slicing (\<^verbatim>\<open>[:16]\<close>, \<^verbatim>\<open>[:80]\<close>) counts code
  points, so a string is a list of code points here. \<open>lit\<close> turns an ASCII literal
  into such a list; the symbols the program prints beyond ASCII are written as their
  code points.
\<close>

type_synonym ustr = "nat list"

definition lit :: "string \<Rightarrow> ustr" where
  "lit s = map of_char s"

definition quoted :: "ustr \<Rightarrow> ustr" where
  \<comment> \<open>the text between two double-quote characters\<close>
  "quoted s = [34] @ s @ [34]"

text \<open>
  A Python \<^verbatim>\<open>float\<close>: a finite dyadic value (mantissa and exponent), an infinity or
  NaN. The program only tests floats for truth.
\<close>

datatype pyfloat = Finite int int | Infinity | NegInfinity | NaN

text \<open>
  What \<^verbatim>\<open>json.loads\<close> and \<^verbatim>\<open>response.json()\<close> return. A dict is kept as its items
  in insertion order, with distinct keys.
\<close>

datatype jvalue =
    JNull
  | JBool bool
  | JInt int
  | JFloat pyfloat
  | JStr ustr
  | JArr "jvalue list"
  | JObj "(ustr \<times> jvalue) list"

text \<open>
  The exceptions a run can end with. \<open>DictSliceError\<close> is what slicing a dict raises:
  a TypeError (unhashable slice) before Python 3.12, a KeyError from 3.12 on.
  \<open>UnicodeEncodeError\<close> is what \<^verbatim>\<open>print\<close> raises for text that standard output
  cannot encode. \<open>OtherError\<close> is any exception raised by the platform (the
  subprocess, the HTTP client), named by its class.
\<close>

datatype py_error =
    KeyError ustr
  | TypeError
  | AttributeError
  | DictSliceError
  | JSONDecodeError
  | UnicodeEncodeError
  | OtherError ustr

fun truthy :: "jvalue \<Rightarrow> bool" where
  "truthy JNull = False"
| "truthy (JBool b) = b"
| "truthy (JInt i) = (i \<noteq> 0)"
| "truthy (JFloat f) = (case f of Finite m e \<Rightarrow> m \<noteq> 0 | _ \<Rightarrow> True)"
| "truthy (JStr s) = (s \<noteq> [])"
| "truthy (JArr xs) = (xs \<noteq> [])"
| "truthy (JObj kv) = (kv \<noteq> [])"

fun getitem :: "jvalue \<Rightarrow> ustr \<Rightarrow> py_error + jvalue" where
  \<comment> \<open>\<^verbatim>\<open>v[k]\<close> with a string key: only a dict accepts it\<close>
  "getitem (JObj kv) k = (case map_of kv k of None \<Rightarrow> Inl (KeyError k) | Some x \<Rightarrow> Inr x)"
| "getitem _ k = Inl TypeError"

fun dict_get :: "jvalue \<Rightarrow> ustr \<Rightarrow> jvalue \<Rightarrow> py_error + jvalue" where
  \<comment> \<open>\<^verbatim>\<open>v.get(k, d)\<close>: only a dict has the method\<close>
  "dict_get (JObj kv) k d = Inr (case map_of kv k of None \<Rightarrow> d | Some x \<Rightarrow> x)"
| "dict_get _ k d = Inl AttributeError"

fun slice_to :: "nat \<Rightarrow> jvalue \<Rightarrow> py_error + jvalue" where
  \<comment> \<open>\<^verbatim>\<open>v[:n]\<close>\<close>
  "slice_to n (JStr s) = Inr (JStr (take n s))"
| "slice_to n (JArr xs) = Inr (JArr (take n xs))"
| "slice_to n (JObj kv) = Inl DictSliceError"
| "slice_to n _ = Inl TypeError"

fun str_replace :: "jvalue \<Rightarrow> nat \<Rightarrow> nat \<Rightarrow> py_error + jvalue" where
  \<comment> \<open>\<^verbatim>\<open>v.replace(old, new)\<close> for one-character \<open>old\<close> and \<open>new\<close>: only a str has
      the method\<close>
  "str_replace (JStr s) old new = Inr (JStr (map (\<lambda>c. if c = old then new else c) s))"
| "str_replace _ old new = Inl AttributeError"

fun py_len :: "jvalue \<Rightarrow> py_error + nat" where
  "py_len (JStr s) = Inr (length s)"
| "py_len (JArr xs) = Inr (length xs)"
| "py_len (JObj kv) = Inr (length kv)"
| "py_len _ = Inl TypeError"

fun py_iter :: "jvalue \<Rightarrow> py_error + jvalue list" where
  \<comment> \<open>the items a \<^verbatim>\<open>for\<close> loop over the value visits\<close>
  "py_iter (JStr s) = Inr (map (\<lambda>c. JStr [c]) s)"
| "py_iter (JArr xs) = Inr xs"
| "py_iter (JObj kv) = Inr (map (\<lambda>(k, v). JStr k) kv)"
| "py_iter _ = Inl TypeError"

fun str_nat :: "nat \<Rightarrow> ustr" where
  "str_nat n = (if n < 10 then [48 + n] else str_nat (n div 10) @ [48 + n mod 10])"

declare str_nat.simps [simp del]

definition str_int :: "int \<Rightarrow> ustr" where
  "str_int i = (if i < 0 then 45 # str_nat (nat (- i)) else str_nat (nat i))"

definition isspace :: "nat \<Rightarrow> bool" where
  \<comment> \<open>the code points \<^verbatim>\<open>str.isspace\<close> accepts\<close>
  "isspace c \<longleftrightarrow>
     (9 \<le> c \<and> c \<le> 13) \<or> (28 \<le> c \<and> c \<le> 32) \<or> c = 133 \<or> c = 160 \<or> c = 5760 \<or>
     (8192 \<le> c \<and> c \<le> 8202) \<or> c = 8232 \<or> c = 8233 \<or> c = 8239 \<or> c = 8287 \<or> c = 12288"

definition strip :: "ustr \<Rightarrow> ustr" where
  "strip s = rev (dropWhile isspace (rev (dropWhile isspace s)))"

section \<open>The platform\<close>

text \<open>
  A surrogate is a code point from U+D800 to U+DFFF. A Python \<^verbatim>\<open>str\<close> may hold one
  on its own: \<^verbatim>\<open>json.loads\<close> accepts the escape \<^verbatim>\<open>\ud800\<close>, and an argument of the
  command line that is not valid in the locale's encoding arrives with the code points
  U+DC80 to U+DCFF in place of its bytes.
\<close>

definition surrogate :: "nat \<Rightarrow> bool" where
  "surrogate c \<longleftrightarrow> 55296 \<le> c \<and> c \<le> 57343"

text \<open>
  The text of an HTTP response: \<^verbatim>\<open>requests\<close> decodes the body with
  \<^verbatim>\<open>errors='replace'\<close>, so \<^verbatim>\<open>response.text\<close> holds no surrogate. \<open>chars\<close> gives
  its code points.
\<close>

typedef decoded = "{s :: nat list. list_all (\<lambda>c. \<not> surrogate c) s}"
  morphisms chars Decoded
  by (rule exI [of _ "[]"]) simp

record completed_process =
  returncode :: int
  stdout :: ustr

record response =
  status_code :: int
  "text" :: decoded
  json :: "py_error + jvalue"

text \<open>
  Standard output is a UTF-8 text stream. Its error handler is \<^verbatim>\<open>strict\<close>, or
  \<^verbatim>\<open>surrogateescape\<close> when Python starts in the C locale.
\<close>

datatype error_handler = Strict | SurrogateEscape

text \<open>
  Everything outside the script is a parameter of the model: the command line, the
  error handler of standard output, the secret-store subprocess, the two HTTP endpoints,
  the JSON parser, and the text Python gives a float, a str inside a container, a list
  or a dict when an f-string formats it.
  A platform call either raises or returns; \<open>json\<close> of a response is what its
  \<^verbatim>\<open>json()\<close> method does.
\<close>

record world =
  argv :: "ustr list"
  stdout_errors :: error_handler
  subprocess_run :: "ustr list \<Rightarrow> py_error + completed_process"
  requests_post :: "ustr \<Rightarrow> (ustr \<times> jvalue) list \<Rightarrow> py_error + response"
  requests_get ::
    "ustr \<Rightarrow> (ustr \<times> ustr) list \<Rightarrow> (ustr \<times> jvalue) list \<Rightarrow> py_error + response"
  json_loads :: "ustr \<Rightarrow> py_error + jvalue"
  py_repr :: "jvalue \<Rightarrow> ustr"

definition py_str :: "world \<Rightarrow> jvalue \<Rightarrow> ustr" where
  \<comment> \<open>the text an f-string puts for \<^verbatim>\<open>{v}\<close>\<close>
  "py_str w v =
     (case v of
        JStr s \<Rightarrow> s
      | JNull \<Rightarrow> lit ''None''
      | JBool b \<Rightarrow> (if b then lit ''True'' else lit ''False'')
      | JInt i \<Rightarrow> str_int i
      | _ \<Rightarrow> py_repr w v)"

section \<open>Effects\<close>

text \<open>
  A run writes to standard output and calls the platform. The state keeps the text
  written so far and the calls made so far, in order. A step returns a value, leaves
  through \<^verbatim>\<open>sys.exit\<close>, or raises an exception nothing catches.
\<close>

datatype call =
    Run "ustr list"
  | Post ustr "(ustr \<times> jvalue) list"
  | Get ustr "(ustr \<times> ustr) list" "(ustr \<times> jvalue) list"

record state =
  printed :: ustr
  calls :: "call list"

datatype 'a outcome = Return 'a | Exit int | Raise py_error

type_synonym 'a prog = "state \<Rightarrow> 'a outcome \<times> state"

definition bind_prog :: "'a prog \<Rightarrow> ('a \<Rightarrow> 'b prog) \<Rightarrow> 'b prog" where
  "bind_prog m f st =
     (case m st of
        (Return x, st') \<Rightarrow> f x st'
      | (Exit n, st') \<Rightarrow> (Exit n, st')
      | (Raise e, st') \<Rightarrow> (Raise e, st'))"

definition then_prog :: "unit prog \<Rightarrow> 'b prog \<Rightarrow> 'b prog" where
  "then_prog m k = bind_prog m (\<lambda>_. k)"

definition lift :: "py_error + 'a \<Rightarrow> 'a prog" where
  "lift r st = (case r of Inl e \<Rightarrow> (Raise e, st) | Inr x \<Rightarrow> (Return x, st))"

text \<open>
  \<^verbatim>\<open>print(s)\<close> encodes \<open>s\<close> before it writes anything of it. UTF-8 encodes every
  code point but a surrogate; under \<^verbatim>\<open>surrogateescape\<close> the surrogates U+DC80 to
  U+DCFF are written back as the bytes they stand for. Text that cannot be encoded
  raises UnicodeEncodeError, and none of it is written.
\<close>

definition encodes :: "world \<Rightarrow> nat \<Rightarrow> bool" where
  "encodes w c \<longleftrightarrow>
     \<not> surrogate c \<or> (stdout_errors w = SurrogateEscape \<and> 56448 \<le> c \<and> c \<le> 56575)"

definition printable :: "world \<Rightarrow> ustr \<Rightarrow> bool" where
  "printable w s \<longleftrightarrow> list_all (encodes w) s"

definition print :: "world \<Rightarrow> ustr \<Rightarrow> unit prog" where
  "print w s st =
     (if printable w s then (Return (), st\<lparr>printed := printed st @ s @ [10]\<rparr>)
      else (Raise UnicodeEncodeError, st))"

definition sys_exit :: "int \<Rightarrow> 'a prog" where
  "sys_exit n st = (Exit n, st)"

definition run :: "world \<Rightarrow> ustr list \<Rightarrow> completed_process prog" where
  "run w cmd st = lift (subprocess_run w cmd) (st\<lparr>calls := calls st @ [Run cmd]\<rparr>)"

definition post :: "world \<Rightarrow> ustr \<Rightarrow> (ustr \<times> jvalue) list \<Rightarrow> response prog" where
  "post w url data st =
     lift (requests_post w url data) (st\<lparr>calls := calls st @ [Post url data]\<rparr>)"

definition get ::
  "world \<Rightarrow> ustr \<Rightarrow> (ustr \<times> ustr) list \<Rightarrow> (ustr \<times> jvalue) list \<Rightarrow> response prog" where
  "get w url headers params st =
     lift (requests_get w url headers params)
       (st\<lparr>calls := calls st @ [Get url headers params]\<rparr>)"

definition exit_status :: "'a outcome \<Rightarrow> int" where
  \<comment> \<open>the status the interpreter leaves with: an uncaught exception gives 1\<close>
  "exit_status r = (case r of Return x \<Rightarrow> 0 | Exit n \<Rightarrow> n | Raise e \<Rightarrow> 1)"

definition start :: state where
  "start = \<lparr>printed = [], calls = []\<rparr>"

section \<open>The script\<close>

definition security_cmd :: "ustr list" where
  "security_cmd =
     [lit ''security'', lit ''find-generic-password'', lit ''-s'',
      lit ''openclaw-microsoft365'', lit ''-w'']"

definition get_credentials :: "world \<Rightarrow> jvalue prog" where
  "get_credentials w =
     bind_prog (run w security_cmd) (\<lambda>result.
       if returncode result \<noteq> 0 then
         then_prog (print w ([10060] @ lit '' No credentials found in keychain''))
        (then_prog (print w (lit ''   Store credentials with:''))
        (then_prog
           (print w (lit ''   security add-generic-password -s ''
              @ quoted (lit ''openclaw-microsoft365'') @ lit '' -a '' @ quoted (lit ''graph'')
              @ lit '' '' @ [92]))
        (then_prog
           (print w (lit ''     -w '' @ [39] @ lit ''{'' @ quoted (lit ''tenant_id'') @ lit '':''
              @ quoted (lit ''xxx'') @ lit '','' @ quoted (lit ''client_id'') @ lit '':''
              @ quoted (lit ''xxx'') @ lit '','' @ quoted (lit ''client_secret'') @ lit '':''
              @ quoted (lit ''xxx'') @ lit ''}'' @ [39] @ lit '' -U''))
        (sys_exit 1))))
       else lift (json_loads w (strip (stdout result))))"

definition token_url :: "world \<Rightarrow> jvalue \<Rightarrow> ustr" where
  "token_url w tenant_id =
     lit ''https://login.microsoftonline.com/'' @ py_str w tenant_id
       @ lit ''/oauth2/v2.0/token''"

definition token_data :: "jvalue \<Rightarrow> jvalue \<Rightarrow> (ustr \<times> jvalue) list" where
  "token_data client_id client_secret =
     [(lit ''grant_type'', JStr (lit ''client_credentials'')),
      (lit ''client_id'', client_id),
      (lit ''client_secret'', client_secret),
      (lit ''scope'', JStr (lit ''https://graph.microsoft.com/.default''))]"

definition get_token :: "world \<Rightarrow> jvalue \<Rightarrow> jvalue prog" where
  "get_token w creds =
     bind_prog (lift (getitem creds (lit ''tenant_id''))) (\<lambda>tenant_id.
     bind_prog (lift (getitem creds (lit ''client_id''))) (\<lambda>client_id.
     bind_prog (lift (getitem creds (lit ''client_secret''))) (\<lambda>client_secret.
     bind_prog (post w (token_url w tenant_id) (token_data client_id client_secret))
       (\<lambda>response.
         if status_code response \<noteq> 200 then
           then_prog (print w ([10060] @ lit '' Auth failed: '' @ chars (text response)))
             (sys_exit 1)
         else
           bind_prog (lift (json response)) (\<lambda>body.
             lift (getitem body (lit ''access_token'')))))))"

definition messages_url :: "world \<Rightarrow> jvalue \<Rightarrow> ustr" where
  "messages_url w mailbox =
     lit ''https://graph.microsoft.com/v1.0/users/'' @ py_str w mailbox @ lit ''/messages''"

definition auth_headers :: "world \<Rightarrow> jvalue \<Rightarrow> (ustr \<times> ustr) list" where
  "auth_headers w token = [(lit ''Authorization'', lit ''Bearer '' @ py_str w token)]"

definition query_params :: "bool \<Rightarrow> int \<Rightarrow> (ustr \<times> jvalue) list" where
  \<comment> \<open>the dict \<^verbatim>\<open>params\<close>; a key assigned later goes to the end\<close>
  "query_params unread_only limit =
     (let params =
            [(lit ''$top'', JInt limit),
             (lit ''$orderby'', JStr (lit ''receivedDateTime desc'')),
             (lit ''$select'',
                JStr (lit ''subject,from,receivedDateTime,isRead,bodyPreview''))]
      in if unread_only
         then AList.update (lit ''$filter'') (JStr (lit ''isRead eq false'')) params
         else params)"

definition check_emails :: "world \<Rightarrow> jvalue \<Rightarrow> jvalue \<Rightarrow> bool \<Rightarrow> int \<Rightarrow> jvalue prog" where
  "check_emails w mailbox token unread_only limit =
     bind_prog
       (get w (messages_url w mailbox) (auth_headers w token)
          (query_params unread_only limit))
       (\<lambda>response.
         if status_code response \<noteq> 200 then
           then_prog (print w ([10060] @ lit '' Failed to get emails: '' @ chars (text response)))
             (sys_exit 1)
         else
           bind_prog (lift (json response)) (\<lambda>body.
             lift (dict_get body (lit ''value'') (JArr []))))"

text \<open>
  The body of the loop of \<^verbatim>\<open>main\<close>, for one item. In
  \<^verbatim>\<open>sender.get('name', sender['address'])\<close> Python looks the method up first, then
  evaluates the arguments, then calls.
\<close>

definition show_email :: "world \<Rightarrow> jvalue \<Rightarrow> unit prog" where
  "show_email w email =
     bind_prog (lift (getitem email (lit ''from''))) (\<lambda>from_v.
     bind_prog (lift (getitem from_v (lit ''emailAddress''))) (\<lambda>sender.
     bind_prog
       (case sender of
          JObj kv \<Rightarrow>
            bind_prog (lift (getitem sender (lit ''address''))) (\<lambda>address.
              lift (dict_get sender (lit ''name'') address))
        | _ \<Rightarrow> lift (Inl AttributeError)) (\<lambda>name.
     bind_prog (lift (dict_get email (lit ''subject'') (JStr (lit ''(no subject)''))))
       (\<lambda>subject.
     bind_prog (lift (getitem email (lit ''receivedDateTime''))) (\<lambda>received_v.
     bind_prog (lift (slice_to 16 received_v)) (\<lambda>received_s.
     bind_prog (lift (str_replace received_s 84 32)) (\<lambda>received.
     bind_prog (lift (dict_get email (lit ''bodyPreview'') (JStr []))) (\<lambda>preview_v.
     bind_prog (lift (slice_to 80 preview_v)) (\<lambda>preview.
       then_prog (print w (lit ''From: '' @ py_str w name))
      (then_prog (print w (lit ''Subject: '' @ py_str w subject))
      (then_prog (print w (lit ''Received: '' @ py_str w received))
      (then_prog (print w (lit ''Preview: '' @ py_str w preview @ lit ''...''))
      (print w (replicate 50 45))))))))))))))"

fun show_emails :: "world \<Rightarrow> jvalue list \<Rightarrow> unit prog" where
  "show_emails w [] = lift (Inr ())"
| "show_emails w (email # rest) = then_prog (show_email w email) (show_emails w rest)"

definition usage :: "world \<Rightarrow> unit prog" where
  \<comment> \<open>the branch of \<^verbatim>\<open>main\<close> taken when \<^verbatim>\<open>not mailbox\<close>\<close>
  "usage w =
     then_prog (print w (lit ''Usage: python3 email-check.py user@domain.com''))
    (then_prog (print w (lit ''Set your mailbox as the first argument''))
    (sys_exit 1))"

definition main :: "world \<Rightarrow> unit prog" where
  "main w =
     (let mailbox = (if length (argv w) > 1 then JStr (argv w ! 1) else JNull)
      in if \<not> truthy mailbox then usage w
         else
           then_prog (print w ([128231] @ lit '' Checking '' @ py_str w mailbox @ lit ''...''))
          (bind_prog (get_credentials w) (\<lambda>creds.
           bind_prog (get_token w creds) (\<lambda>token.
           bind_prog (check_emails w mailbox token True 10) (\<lambda>emails.
             if \<not> truthy emails then print w ([9989] @ lit '' No unread emails'')
             else
               bind_prog (lift (py_len emails)) (\<lambda>n.
               then_prog
                 (print w ([10, 128236] @ lit '' '' @ str_nat n @ lit '' unread email(s):''
                    @ [10]))
              (bind_prog (lift (py_iter emails)) (\<lambda>items.
                 show_emails w items))))))))"

section \<open>Example platforms\<close>

text \<open>
  A platform whose secret store holds a complete bundle and whose two endpoints answer
  every request with the given responses, and the message of the spec's example.
\<close>

definition creds_text :: ustr where
  "creds_text =
     lit ''{'' @ quoted (lit ''tenant_id'') @ lit '':'' @ quoted (lit ''t0'') @ lit '',''
       @ quoted (lit ''client_id'') @ lit '':'' @ quoted (lit ''c0'') @ lit '',''
       @ quoted (lit ''client_secret'') @ lit '':'' @ quoted (lit ''s0'') @ lit ''}''"

definition creds_bundle :: jvalue where
  "creds_bundle =
     JObj [(lit ''tenant_id'', JStr (lit ''t0'')), (lit ''client_id'', JStr (lit ''c0'')),
           (lit ''client_secret'', JStr (lit ''s0''))]"

definition mock_world :: "ustr list \<Rightarrow> ustr \<Rightarrow> response \<Rightarrow> response \<Rightarrow> world" where
  "mock_world args secret token_response listing_response =
     \<lparr>argv = args,
      stdout_errors = Strict,
      subprocess_run = (\<lambda>cmd. Inr \<lparr>returncode = 0, stdout = secret @ [10]\<rparr>),
      requests_post = (\<lambda>url data. Inr token_response),
      requests_get = (\<lambda>url headers params. Inr listing_response),
      json_loads = (\<lambda>s. if s = creds_text then Inr creds_bundle
                         else if s = lit ''{}'' then Inr (JObj [])
                         else Inl JSONDecodeError),
      py_repr = (\<lambda>v. [])\<rparr>"

definition token_ok :: response where
  "token_ok =
     \<lparr>status_code = 200,
      text = Decoded (lit ''{'' @ quoted (lit ''access_token'') @ lit '':''
        @ quoted (lit ''T'') @ lit ''}''),
      json = Inr (JObj [(lit ''access_token'', JStr (lit ''T''))])\<rparr>"


definition listing_of :: "jvalue list \<Rightarrow> response" where
  \<comment> \<open>a 200 response whose body has the given \<open>value\<close> array; the raw text is left
      out\<close>
  "listing_of msgs =
     \<lparr>status_code = 200, text = Decoded [],
      json = Inr (JObj [(lit ''value'', JArr msgs)])\<rparr>"

definition listing_failed :: response where
  "listing_failed =
     \<lparr>status_code = 503, text = Decoded (lit ''unavailable''),
      json = Inl JSONDecodeError\<rparr>"

definition bob_message :: jvalue where
  "bob_message =
     JObj [(lit ''subject'', JStr (lit ''Hi'')),
           (lit ''from'',
              JObj [(lit ''emailAddress'',
                JObj [(lit ''name'', JStr (lit ''Bob'')),
                      (lit ''address'', JStr (lit ''bob@x.com''))])]),
           (lit ''receivedDateTime'', JStr (lit ''2024-01-01T12:34:56Z'')),
           (lit ''isRead'', JBool False),
           (lit ''bodyPreview'', JStr (lit ''Hello world''))]"

definition cli_args :: "ustr list" where
  "cli_args = [lit ''email-check.py'', lit ''bob@x.com'']"

section \<open>The listing requests of a run\<close>

text \<open>
  \<open>unread_gets\<close> holds of a state when every listing request made so far carried the
  query parameters of unread-only mode with the default page size; \<open>keeps\<close> holds of a
  step that never breaks this.
\<close>

definition unread_gets :: "state \<Rightarrow> bool" where
  "unread_gets st \<longleftrightarrow>
     (\<forall>c \<in> set (calls st).
        case c of Get url headers params \<Rightarrow> params = query_params True 10 | _ \<Rightarrow> True)"

definition keeps :: "'a prog \<Rightarrow> bool" where
  "keeps m \<longleftrightarrow> (\<forall>st. unread_gets st \<longrightarrow> unread_gets (snd (m st)))"

section \<open>Stepping through a run\<close>

lemma bind_prog_lift_Inr [simp]: "bind_prog (lift (Inr x)) f st = f x st"
  by (simp add: bind_prog_def lift_def)

lemma bind_prog_lift_Inl [simp]: "bind_prog (lift (Inl e)) f st = (Raise e, st)"
  by (simp add: bind_prog_def lift_def)

lemma bind_prog_Inr [simp]: "bind_prog (lift (Inr x)) f = f x"
  by (rule ext) simp

lemma bind_prog_Inl [simp]: "bind_prog (lift (Inl e)) f = lift (Inl e)"
  by (rule ext) (simp add: lift_def)

lemma bind_prog_Pair [simp]:
  "bind_prog (Pair (Return x)) f = f x"
  "bind_prog (Pair (Raise e)) f = Pair (Raise e)"
  "bind_prog (Pair (Exit n)) f = Pair (Exit n)"
  by (rule ext, simp add: bind_prog_def)+

lemma lift_Inr [simp]: "lift (Inr x) st = (Return x, st)"
  by (simp add: lift_def)

lemma lift_Inl [simp]: "lift (Inl e) st = (Raise e, st)"
  by (simp add: lift_def)

subsection \<open>What standard output accepts\<close>

lemma encodes_symbols [simp]:
  "encodes w 10" "encodes w 34" "encodes w 39" "encodes w 45" "encodes w 92"
  "encodes w 9989" "encodes w 10060" "encodes w 128231" "encodes w 128236"
  by (simp_all add: encodes_def surrogate_def)

lemma printable_Nil [simp]: "printable w []"
  by (simp add: printable_def)

lemma printable_Cons [simp]: "printable w (c # s) \<longleftrightarrow> encodes w c \<and> printable w s"
  by (simp add: printable_def)

lemma printable_append [simp]: "printable w (a @ b) \<longleftrightarrow> printable w a \<and> printable w b"
  by (simp add: printable_def)

lemma encodes_below [simp]: "c < 55296 \<Longrightarrow> encodes w c"
  by (simp add: encodes_def surrogate_def)

lemma lit_below: "c \<in> set (lit s) \<Longrightarrow> c < 55296"
proof -
  assume "c \<in> set (lit s)"
  then obtain x where c: "c = of_char x"
    by (auto simp add: lit_def)
  have "(of_char x :: nat) < 55296"
    using nat_of_char_less_256 [of x] by linarith
  with c show ?thesis by simp
qed

lemma printable_lit [simp]: "printable w (lit s)"
  by (simp add: printable_def list_all_iff lit_below)

lemma printable_quoted [simp]: "printable w (quoted s) \<longleftrightarrow> printable w s"
  by (simp add: quoted_def)

lemma printable_chars [simp]: "printable w (chars t)"
  using chars [of t] by (simp add: printable_def list_all_iff encodes_def)

lemma printable_replicate [simp]: "encodes w c \<Longrightarrow> printable w (replicate n c)"
  by (induction n) simp_all

lemma printable_str_nat [simp]: "printable w (str_nat n)"
proof (induction n rule: str_nat.induct)
  case (1 n)
  have digit: "encodes w (48 + k)" if "k < 10" for k
    using that by (simp add: encodes_def surrogate_def)
  show ?case
  proof (cases "n < 10")
    case True
    then show ?thesis
      by (subst str_nat.simps) (simp add: digit)
  next
    case False
    with "1" have "printable w (str_nat (n div 10))" by simp
    then show ?thesis
      using False by (subst str_nat.simps) (simp add: digit)
  qed
qed

lemma chars_Decoded_lit [simp]: "chars (Decoded (lit s)) = lit s"
proof (rule Decoded_inverse)
  have "\<not> surrogate c" if "c \<in> set (lit s)" for c
    using lit_below [OF that] by (simp add: surrogate_def)
  then show "lit s \<in> {s. list_all (\<lambda>c. \<not> surrogate c) s}"
    by (simp add: list_all_iff)
qed

lemma chars_Decoded_Nil [simp]: "chars (Decoded []) = []"
  by (simp add: Decoded_inverse)

subsection \<open>The steps of the script\<close>

lemma print_step [simp]:
  "printable w s \<Longrightarrow> print w s st = (Return (), st\<lparr>printed := printed st @ s @ [10]\<rparr>)"
  by (simp add: print_def)

lemma then_prog_print [simp]:
  "printable w s \<Longrightarrow>
   then_prog (print w s) k st = k (st\<lparr>printed := printed st @ s @ [10]\<rparr>)"
  by (simp add: then_prog_def bind_prog_def print_def)

lemma then_prog_print_raises:
  "\<not> printable w s \<Longrightarrow> then_prog (print w s) k st = (Raise UnicodeEncodeError, st)"
  by (simp add: then_prog_def bind_prog_def print_def)

lemma bind_prog_run [simp]:
  "bind_prog (run w cmd) f st =
     (case subprocess_run w cmd of
        Inl e \<Rightarrow> (Raise e, st\<lparr>calls := calls st @ [Run cmd]\<rparr>)
      | Inr r \<Rightarrow> f r (st\<lparr>calls := calls st @ [Run cmd]\<rparr>))"
  by (simp add: bind_prog_def run_def lift_def split: sum.splits)

lemma bind_prog_post [simp]:
  "bind_prog (post w url data) f st =
     (case requests_post w url data of
        Inl e \<Rightarrow> (Raise e, st\<lparr>calls := calls st @ [Post url data]\<rparr>)
      | Inr r \<Rightarrow> f r (st\<lparr>calls := calls st @ [Post url data]\<rparr>))"
  by (simp add: bind_prog_def post_def lift_def split: sum.splits)

lemma bind_prog_get [simp]:
  "bind_prog (get w url headers params) f st =
     (case requests_get w url headers params of
        Inl e \<Rightarrow> (Raise e, st\<lparr>calls := calls st @ [Get url headers params]\<rparr>)
      | Inr r \<Rightarrow> f r (st\<lparr>calls := calls st @ [Get url headers params]\<rparr>))"
  by (simp add: bind_prog_def get_def lift_def split: sum.splits)

lemma py_str_JStr [simp]: "py_str w (JStr s) = s"
  by (simp add: py_str_def)

lemma usage_step:
  "usage w st =
     (Exit 1,
      st\<lparr>printed := printed st @ lit ''Usage: python3 email-check.py user@domain.com''
        @ [10] @ lit ''Set your mailbox as the first argument'' @ [10]\<rparr>)"
  by (simp add: usage_def sys_exit_def)

lemma get_credentials_step:
  assumes "subprocess_run w security_cmd = Inr p" and "returncode p = 0"
  shows "get_credentials w st =
     lift (json_loads w (strip (stdout p))) (st\<lparr>calls := calls st @ [Run security_cmd]\<rparr>)"
  using assms by (simp add: get_credentials_def)

lemma get_token_step:
  assumes "map_of c (lit ''tenant_id'') = Some tid"
    and "map_of c (lit ''client_id'') = Some cid"
    and "map_of c (lit ''client_secret'') = Some sec"
    and "requests_post w (token_url w tid) (token_data cid sec) = Inr r"
  shows "get_token w (JObj c) st =
     (let st' = st\<lparr>calls := calls st @ [Post (token_url w tid) (token_data cid sec)]\<rparr>
      in if status_code r \<noteq> 200
         then (Exit 1,
               st'\<lparr>printed := printed st' @ [10060] @ lit '' Auth failed: '' @ chars (text r)
                      @ [10]\<rparr>)
         else lift (case json r of Inl e \<Rightarrow> Inl e
                    | Inr body \<Rightarrow> getitem body (lit ''access_token'')) st')"
  using assms by (simp add: get_token_def sys_exit_def Let_def split: sum.splits)

lemma query_params_unread:
  "query_params True limit =
     [(lit ''$top'', JInt limit),
      (lit ''$orderby'', JStr (lit ''receivedDateTime desc'')),
      (lit ''$select'', JStr (lit ''subject,from,receivedDateTime,isRead,bodyPreview'')),
      (lit ''$filter'', JStr (lit ''isRead eq false''))]"
  by (simp add: query_params_def lit_def)

lemma check_emails_step:
  assumes "requests_get w (messages_url w mailbox) (auth_headers w token)
             (query_params unread_only limit) = Inr r"
  shows "check_emails w mailbox token unread_only limit st =
     (let st' = st\<lparr>calls := calls st @ [Get (messages_url w mailbox) (auth_headers w token)
                  (query_params unread_only limit)]\<rparr>
      in if status_code r \<noteq> 200
         then (Exit 1,
               st'\<lparr>printed := printed st' @ [10060] @ lit '' Failed to get emails: ''
                      @ chars (text r) @ [10]\<rparr>)
         else lift (case json r of Inl e \<Rightarrow> Inl e
                    | Inr body \<Rightarrow> dict_get body (lit ''value'') (JArr [])) st')"
  using assms by (simp add: check_emails_def sys_exit_def Let_def split: sum.splits)

lemma check_emails_calls:
  "calls (snd (check_emails w mailbox token unread_only limit st)) =
     calls st @ [Get (messages_url w mailbox) (auth_headers w token)
       (query_params unread_only limit)]"
  by (simp add: check_emails_def sys_exit_def split: sum.splits)
    (simp add: bind_prog_def lift_def split: sum.splits)

text \<open>
  A run whose mailbox argument is not empty, whose secret store gives a bundle with the
  three fields and whose token endpoint answers: what is left of \<open>main\<close> after the
  token request.
\<close>

lemma main_run:
  assumes "argv w = script # m # rest" and "m \<noteq> []" and "printable w m"
    and "subprocess_run w security_cmd = Inr p" and "returncode p = 0"
    and "json_loads w (strip (stdout p)) = Inr (JObj c)"
    and "map_of c (lit ''tenant_id'') = Some tid"
    and "map_of c (lit ''client_id'') = Some cid"
    and "map_of c (lit ''client_secret'') = Some sec"
    and "requests_post w (token_url w tid) (token_data cid sec) = Inr r"
  shows "main w start =
    (let st' = \<lparr>printed = [128231] @ lit '' Checking '' @ m @ lit ''...'' @ [10],
               calls = [Run security_cmd, Post (token_url w tid) (token_data cid sec)]\<rparr>
     in if status_code r \<noteq> 200
        then (Exit 1,
              st'\<lparr>printed := printed st' @ [10060] @ lit '' Auth failed: '' @ chars (text r)
                     @ [10]\<rparr>)
        else bind_prog
          (lift (case json r of Inl e \<Rightarrow> Inl e
                 | Inr body \<Rightarrow> getitem body (lit ''access_token'')))
          (\<lambda>token.
           bind_prog (check_emails w (JStr m) token True 10) (\<lambda>emails.
             if \<not> truthy emails then print w ([9989] @ lit '' No unread emails'')
             else
               bind_prog (lift (py_len emails)) (\<lambda>n.
               then_prog
                 (print w ([10, 128236] @ lit '' '' @ str_nat n @ lit '' unread email(s):''
                    @ [10]))
              (bind_prog (lift (py_iter emails)) (\<lambda>items.
                 show_emails w items))))) st')"
  using assms
  by (simp add: main_def start_def bind_prog_def [of "get_credentials w"]
      bind_prog_def [of "get_token w (JObj c)"]
      get_credentials_step get_token_step Let_def lift_def split: sum.splits)

lemma main_unprintable:
  assumes "argv w = script # m # rest" and "m \<noteq> []" and "\<not> printable w m"
  shows "main w start = (Raise UnicodeEncodeError, start)"
  using assms by (simp add: main_def then_prog_print_raises)

text \<open>
  The same run when the token endpoint grants a token and the listing endpoint answers
  200 with a non-empty \<open>value\<close> array: what is left is the loop.
\<close>

lemma main_listing:
  assumes "argv w = script # m # rest" and "m \<noteq> []" and "printable w m"
    and "subprocess_run w security_cmd = Inr p" and "returncode p = 0"
    and "json_loads w (strip (stdout p)) = Inr (JObj c)"
    and "map_of c (lit ''tenant_id'') = Some tid"
    and "map_of c (lit ''client_id'') = Some cid"
    and "map_of c (lit ''client_secret'') = Some sec"
    and "requests_post w (token_url w tid) (token_data cid sec) = Inr r"
    and "status_code r = 200" and "json r = Inr (JObj b)"
    and "map_of b (lit ''access_token'') = Some t"
    and "requests_get w (messages_url w (JStr m)) (auth_headers w t) (query_params True 10)
           = Inr r'"
    and "status_code r' = 200" and "json r' = Inr (JObj b')"
    and "map_of b' (lit ''value'') = Some (JArr (msg # msgs))"
  shows "main w start =
     show_emails w (msg # msgs)
       \<lparr>printed = [128231] @ lit '' Checking '' @ m @ lit ''...'' @ [10]
          @ [10, 128236] @ lit '' '' @ str_nat (Suc (length msgs))
          @ lit '' unread email(s):'' @ [10] @ [10],
        calls = [Run security_cmd, Post (token_url w tid) (token_data cid sec),
                 Get (messages_url w (JStr m)) (auth_headers w t) (query_params True 10)]\<rparr>"
  using assms(11-17)
  by (simp add: main_run [OF assms(1-10)] check_emails_step [OF assms(14)]
      bind_prog_def [of "check_emails w (JStr m) t True 10"] Let_def)

subsection \<open>The example platforms\<close>

lemma strip_creds: "strip (creds_text @ [10]) = creds_text"
  by (simp add: strip_def isspace_def creds_text_def lit_def quoted_def)

lemma mock_world_simps:
  "argv (mock_world args secret tr lr) = args"
  "stdout_errors (mock_world args secret tr lr) = Strict"
  "subprocess_run (mock_world args secret tr lr) cmd =
     Inr \<lparr>returncode = 0, stdout = secret @ [10]\<rparr>"
  "requests_post (mock_world args secret tr lr) url data = Inr tr"
  "requests_get (mock_world args secret tr lr) url headers params = Inr lr"
  "json_loads (mock_world args secret tr lr) creds_text = Inr creds_bundle"
  by (simp_all add: mock_world_def)

lemma mock_argv:
  "argv (mock_world cli_args secret tr lr) =
     lit ''email-check.py'' # lit ''bob@x.com'' # []"
  by (simp add: mock_world_def cli_args_def)

lemma mock_returncode: "returncode \<lparr>returncode = 0, stdout = s\<rparr> = 0"
  by simp

lemma lit_eq_Nil: "lit s = [] \<longleftrightarrow> s = []"
  by (simp add: lit_def)

lemma mock_mailbox: "lit ''bob@x.com'' \<noteq> []"
  by (simp add: lit_eq_Nil)

lemma mock_loads:
  "json_loads (mock_world args creds_text tr lr)
     (strip (stdout \<lparr>returncode = 0, stdout = creds_text @ [10]\<rparr>)) =
   Inr (JObj [(lit ''tenant_id'', JStr (lit ''t0'')), (lit ''client_id'', JStr (lit ''c0'')),
              (lit ''client_secret'', JStr (lit ''s0''))])"
  by (simp add: strip_creds mock_world_simps creds_bundle_def)

lemma mock_keys:
  "map_of [(lit ''tenant_id'', JStr (lit ''t0'')), (lit ''client_id'', JStr (lit ''c0'')),
           (lit ''client_secret'', JStr (lit ''s0''))] (lit ''tenant_id'') =
     Some (JStr (lit ''t0''))"
  "map_of [(lit ''tenant_id'', JStr (lit ''t0'')), (lit ''client_id'', JStr (lit ''c0'')),
           (lit ''client_secret'', JStr (lit ''s0''))] (lit ''client_id'') =
     Some (JStr (lit ''c0''))"
  "map_of [(lit ''tenant_id'', JStr (lit ''t0'')), (lit ''client_id'', JStr (lit ''c0'')),
           (lit ''client_secret'', JStr (lit ''s0''))] (lit ''client_secret'') =
     Some (JStr (lit ''s0''))"
  by (simp_all add: lit_def)

lemma token_ok_simps:
  "status_code token_ok = 200"
  "json token_ok = Inr (JObj [(lit ''access_token'', JStr (lit ''T''))])"
  "map_of [(lit ''access_token'', JStr (lit ''T''))] (lit ''access_token'') =
     Some (JStr (lit ''T''))"
  by (simp_all add: token_ok_def)


lemma listing_of_simps:
  "status_code (listing_of msgs) = 200"
  "json (listing_of msgs) = Inr (JObj [(lit ''value'', JArr msgs)])"
  "map_of [(lit ''value'', JArr msgs)] (lit ''value'') = Some (JArr msgs)"
  by (simp_all add: listing_of_def)

lemma listing_failed_simps:
  "status_code listing_failed = 503"
  "chars (text listing_failed) = lit ''unavailable''"
  by (simp_all add: listing_failed_def)

lemma mock_urls:
  "token_url w (JStr (lit ''t0'')) =
     lit ''https://login.microsoftonline.com/t0/oauth2/v2.0/token''"
  "messages_url w (JStr (lit ''bob@x.com'')) =
     lit ''https://graph.microsoft.com/v1.0/users/bob@x.com/messages''"
  "auth_headers w (JStr (lit ''T'')) = [(lit ''Authorization'', lit ''Bearer T'')]"
  by (simp_all add: token_url_def messages_url_def auth_headers_def lit_def)

lemma bind_prog_eq:
  "m st = r \<Longrightarrow>
   bind_prog m f st =
     (case r of
        (Return x, st') \<Rightarrow> f x st'
      | (Exit n, st') \<Rightarrow> (Exit n, st')
      | (Raise e, st') \<Rightarrow> (Raise e, st'))"
  by (simp add: bind_prog_def)

lemma replicate_50:
  "replicate 50 (45::nat) = lit ''--------------------------------------------------''"
  by code_simp

text \<open>The run of the first example platform, whose inbox has no unread message.\<close>

lemma mock_main_empty:
  "main (mock_world cli_args creds_text token_ok (listing_of [])) start =
     (Return (),
      \<lparr>printed = [128231] @ lit '' Checking '' @ lit ''bob@x.com'' @ lit ''...'' @ [10]
         @ [9989] @ lit '' No unread emails'' @ [10],
       calls = [Run security_cmd,
          Post (lit ''https://login.microsoftonline.com/t0/oauth2/v2.0/token'')
            (token_data (JStr (lit ''c0'')) (JStr (lit ''s0''))),
          Get (lit ''https://graph.microsoft.com/v1.0/users/bob@x.com/messages'')
            [(lit ''Authorization'', lit ''Bearer T'')]
            (query_params True 10)]\<rparr>)"
proof -
  have tok: "main (mock_world cli_args creds_text token_ok (listing_of [])) start =
     bind_prog
       (check_emails (mock_world cli_args creds_text token_ok (listing_of []))
          (JStr (lit ''bob@x.com'')) (JStr (lit ''T'')) True 10)
       (\<lambda>emails.
          if \<not> truthy emails
          then print (mock_world cli_args creds_text token_ok (listing_of []))
                 ([9989] @ lit '' No unread emails'')
          else
            bind_prog (lift (py_len emails)) (\<lambda>n.
            then_prog
              (print (mock_world cli_args creds_text token_ok (listing_of []))
                 ([10, 128236] @ lit '' '' @ str_nat n @ lit '' unread email(s):''
                    @ [10]))
           (bind_prog (lift (py_iter emails)) (\<lambda>items.
              show_emails (mock_world cli_args creds_text token_ok (listing_of [])) items))))
       \<lparr>printed = [128231] @ lit '' Checking '' @ lit ''bob@x.com'' @ lit ''...'' @ [10],
        calls = [Run security_cmd,
          Post (lit ''https://login.microsoftonline.com/t0/oauth2/v2.0/token'')
            (token_data (JStr (lit ''c0'')) (JStr (lit ''s0'')))]\<rparr>"
    using main_run
      [where w = "mock_world cli_args creds_text token_ok (listing_of [])" and r = token_ok,
       OF mock_argv mock_mailbox printable_lit mock_world_simps(3) _ mock_loads mock_keys
         mock_world_simps(4)]
    by (simp add: token_ok_simps mock_urls)
  have emails: "check_emails (mock_world cli_args creds_text token_ok (listing_of []))
          (JStr (lit ''bob@x.com'')) (JStr (lit ''T'')) True 10 st =
      (Return (JArr []),
       st\<lparr>calls := calls st @
         [Get (lit ''https://graph.microsoft.com/v1.0/users/bob@x.com/messages'')
            [(lit ''Authorization'', lit ''Bearer T'')]
            (query_params True 10)]\<rparr>)" for st
    using check_emails_step
      [where w = "mock_world cli_args creds_text token_ok (listing_of [])"
         and r = "listing_of []" and mailbox = "JStr (lit ''bob@x.com'')"
         and token = "JStr (lit ''T'')" and unread_only = True and limit = 10 and st = st,
       OF mock_world_simps(5)]
    by (simp add: listing_of_simps mock_urls)
  show ?thesis
    by (simp add: tok bind_prog_eq [OF emails])
qed

subsection \<open>No step of a run sends any other listing request\<close>

lemma keeps_bind: "keeps m \<Longrightarrow> (\<And>x. keeps (f x)) \<Longrightarrow> keeps (bind_prog m f)"
  unfolding keeps_def bind_prog_def
  by (auto split: prod.splits outcome.splits)

lemma keeps_then: "keeps m \<Longrightarrow> keeps k \<Longrightarrow> keeps (then_prog m k)"
  by (simp add: then_prog_def keeps_bind)

lemma keeps_lift: "keeps (lift r)"
  by (simp add: keeps_def lift_def split: sum.splits)

lemma keeps_print: "keeps (print w s)"
  by (simp add: keeps_def print_def unread_gets_def)

lemma keeps_sys_exit: "keeps (sys_exit n)"
  by (simp add: keeps_def sys_exit_def)

lemma keeps_run: "keeps (run w cmd)"
  by (simp add: keeps_def run_def lift_def unread_gets_def split: sum.splits)

lemma keeps_post: "keeps (post w url data)"
  by (simp add: keeps_def post_def lift_def unread_gets_def split: sum.splits)

lemma keeps_get: "keeps (get w url headers (query_params True 10))"
  by (simp add: keeps_def get_def lift_def unread_gets_def split: sum.splits)

lemma keeps_if: "keeps a \<Longrightarrow> keeps b \<Longrightarrow> keeps (if c then a else b)"
  by simp

lemma keeps_case:
  "keeps a \<Longrightarrow> (\<And>x. keeps (b x)) \<Longrightarrow> (\<And>x. keeps (c x)) \<Longrightarrow> (\<And>x. keeps (d x)) \<Longrightarrow>
   (\<And>x. keeps (e x)) \<Longrightarrow> (\<And>x. keeps (f x)) \<Longrightarrow> (\<And>x. keeps (g x)) \<Longrightarrow>
   keeps (case_jvalue a b c d e f g v)"
  by (cases v) simp_all

lemmas keeps_intros =
  keeps_case keeps_bind keeps_then keeps_if keeps_lift keeps_print keeps_sys_exit
  keeps_run keeps_post keeps_get

lemma keeps_get_credentials: "keeps (get_credentials w)"
  unfolding get_credentials_def by (intro keeps_intros)

lemma keeps_get_token: "keeps (get_token w creds)"
  unfolding get_token_def by (intro keeps_intros)

lemma keeps_check_emails: "keeps (check_emails w mailbox token True 10)"
  unfolding check_emails_def by (intro keeps_intros)

lemma keeps_show_email: "keeps (show_email w email)"
  unfolding show_email_def by (intro keeps_intros)

lemma keeps_show_emails: "keeps (show_emails w items)"
proof (induction items)
  case Nil
  show ?case unfolding show_emails.simps by (rule keeps_lift)
next
  case (Cons email rest)
  then show ?case unfolding show_emails.simps by (intro keeps_then keeps_show_email)
qed

lemma keeps_main: "keeps (main w)"
  unfolding main_def usage_def Let_def
  by (intro keeps_intros keeps_get_credentials keeps_get_token keeps_check_emails
        keeps_show_emails)

section \<open>The claims\<close>

text \<open>
  C1. For a credential bundle holding the three fields, when the token endpoint answers
  the request with status 200 and a JSON object that has an \<open>access_token\<close> field,
  \<open>get_token\<close> returns exactly the value of that field (for the body
  \<^verbatim>\<open>{"access_token":"T"}\<close>, the string \<^verbatim>\<open>T\<close>), after the one POST.
\<close>

theorem get_token_returns_access_token:
  assumes "map_of c (lit ''tenant_id'') = Some tid"
    and "map_of c (lit ''client_id'') = Some cid"
    and "map_of c (lit ''client_secret'') = Some sec"
    and "requests_post w (token_url w tid) (token_data cid sec) = Inr r"
    and "status_code r = 200"
    and "json r = Inr (JObj body)"
    and "map_of body (lit ''access_token'') = Some t"
  shows "get_token w (JObj c) st =
     (Return t, st\<lparr>calls := calls st @ [Post (token_url w tid) (token_data cid sec)]\<rparr>)"
  using assms by (simp add: get_token_step Let_def)

theorem get_token_returns_access_token_witness:
  "status_code token_ok = 200 \<and>
   json token_ok = Inr (JObj [(lit ''access_token'', JStr (lit ''T''))]) \<and>
   get_token (mock_world cli_args creds_text token_ok (listing_of [])) creds_bundle start =
     (Return (JStr (lit ''T'')),
      \<lparr>printed = [],
       calls = [Post (lit ''https://login.microsoftonline.com/t0/oauth2/v2.0/token'')
                 [(lit ''grant_type'', JStr (lit ''client_credentials'')),
                  (lit ''client_id'', JStr (lit ''c0'')),
                  (lit ''client_secret'', JStr (lit ''s0'')),
                  (lit ''scope'', JStr (lit ''https://graph.microsoft.com/.default''))]]\<rparr>)"
  using get_token_returns_access_token
    [where w = "mock_world cli_args creds_text token_ok (listing_of [])" and r = token_ok
       and st = start,
     OF mock_keys mock_world_simps(4) token_ok_simps]
  by (simp add: token_ok_simps creds_bundle_def start_def mock_urls token_data_def)

text \<open>
  C2. In unread-only mode the one GET of \<open>check_emails\<close> carries
  \<^verbatim>\<open>$top\<close> = the limit, \<^verbatim>\<open>$orderby\<close> = \<^verbatim>\<open>receivedDateTime desc\<close>,
  \<^verbatim>\<open>$select\<close> = \<^verbatim>\<open>subject,from,receivedDateTime,isRead,bodyPreview\<close> and
  \<^verbatim>\<open>$filter\<close> = \<^verbatim>\<open>isRead eq false\<close>; and in every run of \<open>main\<close>, every GET made
  carries exactly these parameters with the limit 10.
\<close>

theorem unread_only_query_params:
  "calls (snd (check_emails w mailbox token True limit st)) =
     calls st @
     [Get (messages_url w mailbox) [(lit ''Authorization'', lit ''Bearer '' @ py_str w token)]
        [(lit ''$top'', JInt limit),
         (lit ''$orderby'', JStr (lit ''receivedDateTime desc'')),
         (lit ''$select'', JStr (lit ''subject,from,receivedDateTime,isRead,bodyPreview'')),
         (lit ''$filter'', JStr (lit ''isRead eq false''))]]
   \<and> (\<forall>c \<in> set (calls (snd (main w start))). \<forall>url headers params.
         c = Get url headers params \<longrightarrow>
         params =
           [(lit ''$top'', JInt 10),
            (lit ''$orderby'', JStr (lit ''receivedDateTime desc'')),
            (lit ''$select'', JStr (lit ''subject,from,receivedDateTime,isRead,bodyPreview'')),
            (lit ''$filter'', JStr (lit ''isRead eq false''))])"
proof
  show "calls (snd (check_emails w mailbox token True limit st)) =
     calls st @
     [Get (messages_url w mailbox) [(lit ''Authorization'', lit ''Bearer '' @ py_str w token)]
        [(lit ''$top'', JInt limit),
         (lit ''$orderby'', JStr (lit ''receivedDateTime desc'')),
         (lit ''$select'', JStr (lit ''subject,from,receivedDateTime,isRead,bodyPreview'')),
         (lit ''$filter'', JStr (lit ''isRead eq false''))]]"
    by (simp add: check_emails_calls query_params_unread auth_headers_def)
next
  have "unread_gets start"
    by (simp add: unread_gets_def start_def)
  with keeps_main [of w] have "unread_gets (snd (main w start))"
    by (simp add: keeps_def)
  then show "\<forall>c \<in> set (calls (snd (main w start))). \<forall>url headers params.
         c = Get url headers params \<longrightarrow>
         params =
           [(lit ''$top'', JInt 10),
            (lit ''$orderby'', JStr (lit ''receivedDateTime desc'')),
            (lit ''$select'', JStr (lit ''subject,from,receivedDateTime,isRead,bodyPreview'')),
            (lit ''$filter'', JStr (lit ''isRead eq false''))]"
    unfolding unread_gets_def query_params_unread by fastforce
qed

theorem unread_only_query_params_witness:
  "Get (lit ''https://graph.microsoft.com/v1.0/users/bob@x.com/messages'')
       [(lit ''Authorization'', lit ''Bearer T'')] (query_params True 10)
     \<in> set (calls (snd (main (mock_world cli_args creds_text token_ok (listing_of [])) start)))
   \<and> query_params True 10 =
         [(lit ''$top'', JInt 10),
          (lit ''$orderby'', JStr (lit ''receivedDateTime desc'')),
          (lit ''$select'', JStr (lit ''subject,from,receivedDateTime,isRead,bodyPreview'')),
          (lit ''$filter'', JStr (lit ''isRead eq false''))]"
proof -
  have mem: "Get (lit ''https://graph.microsoft.com/v1.0/users/bob@x.com/messages'')
       [(lit ''Authorization'', lit ''Bearer T'')] (query_params True 10)
     \<in> set (calls (snd (main (mock_world cli_args creds_text token_ok (listing_of [])) start)))"
    unfolding mock_main_empty by simp
  from unread_only_query_params
    [of "mock_world cli_args creds_text token_ok (listing_of [])", THEN conjunct2,
     rule_format, OF mem refl]
  show ?thesis using mem by simp
qed

text \<open>
  C3. For a message whose \<open>from.emailAddress\<close> is an object with an \<open>address\<close>, whose
  \<open>receivedDateTime\<close> is a string and whose \<open>bodyPreview\<close> is a string or absent, and
  whose lines standard output can encode, the loop body prints five lines:
  \<^verbatim>\<open>From:\<close> with the sender's \<open>name\<close>, or the address when the sender has no
  \<open>name\<close>; \<^verbatim>\<open>Subject:\<close> with the subject, or \<^verbatim>\<open>(no subject)\<close> when there is
  none; \<^verbatim>\<open>Received:\<close> with the first 16 characters of the timestamp, every
  \<^verbatim>\<open>T\<close> replaced by a space; \<^verbatim>\<open>Preview:\<close> with the first 80 characters of the
  preview followed by \<^verbatim>\<open>...\<close>; and a rule of 50 hyphens. The loop then goes on to
  the next message, whose lines follow the rule. A run of \<open>main\<close> whose listing answers
  200 with such a message first prints the \<^verbatim>\<open>Checking\<close> line, the line with the
  number of messages, and these five lines, and goes on with the other messages.
\<close>

theorem show_email_prints:
  assumes "map_of e (lit ''from'') = Some (JObj f)"
    and "map_of f (lit ''emailAddress'') = Some (JObj s)"
    and "map_of s (lit ''address'') = Some address"
    and "map_of e (lit ''receivedDateTime'') = Some (JStr received)"
    and "dict_get (JObj e) (lit ''bodyPreview'') (JStr []) = Inr (JStr preview)"
    and "entry =
           lit ''From: ''
         @ py_str w (case map_of s (lit ''name'') of None \<Rightarrow> address | Some n \<Rightarrow> n) @ [10]
         @ lit ''Subject: ''
         @ py_str w (case map_of e (lit ''subject'') of
                       None \<Rightarrow> JStr (lit ''(no subject)'') | Some x \<Rightarrow> x) @ [10]
         @ lit ''Received: ''
         @ map (\<lambda>c. if c = 84 then 32 else c) (take 16 received) @ [10]
         @ lit ''Preview: '' @ take 80 preview @ lit ''...'' @ [10]
         @ replicate 50 45 @ [10]"
    and "printable w entry"
  shows "show_email w (JObj e) st = (Return (), st\<lparr>printed := printed st @ entry\<rparr>)
     \<and> show_emails w (JObj e # later) st =
         show_emails w later (st\<lparr>printed := printed st @ entry\<rparr>)
     \<and> (argv w = script # m # args \<longrightarrow> m \<noteq> [] \<longrightarrow> printable w m \<longrightarrow>
        subprocess_run w security_cmd = Inr p \<longrightarrow> returncode p = 0 \<longrightarrow>
        json_loads w (strip (stdout p)) = Inr (JObj c) \<longrightarrow>
        map_of c (lit ''tenant_id'') = Some tid \<longrightarrow>
        map_of c (lit ''client_id'') = Some cid \<longrightarrow>
        map_of c (lit ''client_secret'') = Some sec \<longrightarrow>
        requests_post w (token_url w tid) (token_data cid sec) = Inr r \<longrightarrow>
        status_code r = 200 \<longrightarrow> json r = Inr (JObj b) \<longrightarrow>
        map_of b (lit ''access_token'') = Some t \<longrightarrow>
        requests_get w (messages_url w (JStr m)) (auth_headers w t) (query_params True 10)
          = Inr r' \<longrightarrow>
        status_code r' = 200 \<longrightarrow> json r' = Inr (JObj b') \<longrightarrow>
        map_of b' (lit ''value'') = Some (JArr (JObj e # rest)) \<longrightarrow>
        main w start =
          show_emails w rest
            \<lparr>printed = [128231] @ lit '' Checking '' @ m @ lit ''...'' @ [10]
               @ [10, 128236] @ lit '' '' @ str_nat (Suc (length rest))
               @ lit '' unread email(s):'' @ [10] @ [10] @ entry,
             calls = [Run security_cmd, Post (token_url w tid) (token_data cid sec),
                      Get (messages_url w (JStr m)) (auth_headers w t)
                        (query_params True 10)]\<rparr>)"
proof -
  have lines:
    "printable w (py_str w (case map_of s (lit ''name'') of None \<Rightarrow> address | Some n \<Rightarrow> n))"
    "printable w (py_str w (case map_of e (lit ''subject'') of
                       None \<Rightarrow> JStr (lit ''(no subject)'') | Some x \<Rightarrow> x))"
    "printable w (map (\<lambda>c. if c = 84 then 32 else c) (take 16 received))"
    "printable w (take 80 preview)"
    using assms(6,7) by simp_all
  have one: "show_email w (JObj e) st = (Return (), st\<lparr>printed := printed st @ entry\<rparr>)"
    for st
    using assms(1-5) lines by (simp add: show_email_def assms(6))
  have step: "show_emails w (JObj e # later) st =
         show_emails w later (st\<lparr>printed := printed st @ entry\<rparr>)" for later st
    by (simp add: one then_prog_def bind_prog_def)
  have run: "main w start =
          show_emails w rest
            \<lparr>printed = [128231] @ lit '' Checking '' @ m @ lit ''...'' @ [10]
               @ [10, 128236] @ lit '' '' @ str_nat (Suc (length rest))
               @ lit '' unread email(s):'' @ [10] @ [10] @ entry,
             calls = [Run security_cmd, Post (token_url w tid) (token_data cid sec),
                      Get (messages_url w (JStr m)) (auth_headers w t)
                        (query_params True 10)]\<rparr>"
    if "argv w = script # m # args" "m \<noteq> []" "printable w m"
      "subprocess_run w security_cmd = Inr p" "returncode p = 0"
      "json_loads w (strip (stdout p)) = Inr (JObj c)"
      "map_of c (lit ''tenant_id'') = Some tid"
      "map_of c (lit ''client_id'') = Some cid"
      "map_of c (lit ''client_secret'') = Some sec"
      "requests_post w (token_url w tid) (token_data cid sec) = Inr r"
      "status_code r = 200" "json r = Inr (JObj b)"
      "map_of b (lit ''access_token'') = Some t"
      "requests_get w (messages_url w (JStr m)) (auth_headers w t) (query_params True 10)
          = Inr r'"
      "status_code r' = 200" "json r' = Inr (JObj b')"
      "map_of b' (lit ''value'') = Some (JArr (JObj e # rest))"
    unfolding main_listing [OF that] step by simp
  from one step run show ?thesis by blast
qed

theorem show_email_prints_witness:
  "main (mock_world cli_args creds_text token_ok (listing_of [bob_message])) start =
     (Return (),
      \<lparr>printed = [128231] @ lit '' Checking bob@x.com...'' @ [10]
         @ [10, 128236] @ lit '' 1 unread email(s):'' @ [10] @ [10]
         @ lit ''From: Bob'' @ [10] @ lit ''Subject: Hi'' @ [10]
         @ lit ''Received: 2024-01-01 12:34'' @ [10]
         @ lit ''Preview: Hello world...'' @ [10]
         @ lit ''--------------------------------------------------'' @ [10],
       calls = [Run security_cmd,
          Post (lit ''https://login.microsoftonline.com/t0/oauth2/v2.0/token'')
            (token_data (JStr (lit ''c0'')) (JStr (lit ''s0''))),
          Get (lit ''https://graph.microsoft.com/v1.0/users/bob@x.com/messages'')
            [(lit ''Authorization'', lit ''Bearer T'')]
            (query_params True 10)]\<rparr>)"
proof -
  have entry: "printable (mock_world cli_args creds_text token_ok (listing_of [bob_message]))
     (lit ''From: '' @ lit ''Bob'' @ [10] @ lit ''Subject: '' @ lit ''Hi'' @ [10]
       @ lit ''Received: '' @ lit ''2024-01-01 12:34'' @ [10]
       @ lit ''Preview: '' @ lit ''Hello world'' @ lit ''...'' @ [10]
       @ replicate 50 45 @ [10])"
    by simp
  have received: "map (\<lambda>c. if c = 84 then 32 else c) (take 16 (lit ''2024-01-01T12:34:56Z''))
      = lit ''2024-01-01 12:34''"
    by (simp add: lit_def)
  have preview: "take 80 (lit ''Hello world'') = lit ''Hello world''"
    by (simp add: lit_def)
  have keys:
    "map_of [(lit ''subject'', JStr (lit ''Hi'')),
           (lit ''from'',
              JObj [(lit ''emailAddress'',
                JObj [(lit ''name'', JStr (lit ''Bob'')),
                      (lit ''address'', JStr (lit ''bob@x.com''))])]),
           (lit ''receivedDateTime'', JStr (lit ''2024-01-01T12:34:56Z'')),
           (lit ''isRead'', JBool False),
           (lit ''bodyPreview'', JStr (lit ''Hello world''))] (lit ''from'') =
       Some (JObj [(lit ''emailAddress'',
                JObj [(lit ''name'', JStr (lit ''Bob'')),
                      (lit ''address'', JStr (lit ''bob@x.com''))])])"
    "map_of [(lit ''emailAddress'',
                JObj [(lit ''name'', JStr (lit ''Bob'')),
                      (lit ''address'', JStr (lit ''bob@x.com''))])] (lit ''emailAddress'') =
       Some (JObj [(lit ''name'', JStr (lit ''Bob'')),
                   (lit ''address'', JStr (lit ''bob@x.com''))])"
    "map_of [(lit ''name'', JStr (lit ''Bob'')), (lit ''address'', JStr (lit ''bob@x.com''))]
       (lit ''address'') = Some (JStr (lit ''bob@x.com''))"
    "map_of [(lit ''subject'', JStr (lit ''Hi'')),
           (lit ''from'',
              JObj [(lit ''emailAddress'',
                JObj [(lit ''name'', JStr (lit ''Bob'')),
                      (lit ''address'', JStr (lit ''bob@x.com''))])]),
           (lit ''receivedDateTime'', JStr (lit ''2024-01-01T12:34:56Z'')),
           (lit ''isRead'', JBool False),
           (lit ''bodyPreview'', JStr (lit ''Hello world''))] (lit ''receivedDateTime'') =
       Some (JStr (lit ''2024-01-01T12:34:56Z''))"
    "dict_get (JObj [(lit ''subject'', JStr (lit ''Hi'')),
           (lit ''from'',
              JObj [(lit ''emailAddress'',
                JObj [(lit ''name'', JStr (lit ''Bob'')),
                      (lit ''address'', JStr (lit ''bob@x.com''))])]),
           (lit ''receivedDateTime'', JStr (lit ''2024-01-01T12:34:56Z'')),
           (lit ''isRead'', JBool False),
           (lit ''bodyPreview'', JStr (lit ''Hello world''))]) (lit ''bodyPreview'') (JStr [])
       = Inr (JStr (lit ''Hello world''))"
    by (simp_all add: lit_def)
  have names:
    "map_of [(lit ''name'', JStr (lit ''Bob'')), (lit ''address'', JStr (lit ''bob@x.com''))]
       (lit ''name'') = Some (JStr (lit ''Bob''))"
    "map_of [(lit ''subject'', JStr (lit ''Hi'')),
           (lit ''from'',
              JObj [(lit ''emailAddress'',
                JObj [(lit ''name'', JStr (lit ''Bob'')),
                      (lit ''address'', JStr (lit ''bob@x.com''))])]),
           (lit ''receivedDateTime'', JStr (lit ''2024-01-01T12:34:56Z'')),
           (lit ''isRead'', JBool False),
           (lit ''bodyPreview'', JStr (lit ''Hello world''))] (lit ''subject'') =
       Some (JStr (lit ''Hi''))"
    by (simp_all add: lit_def)
  have lst: "map_of [(lit ''value'', JArr [bob_message])] (lit ''value'') =
      Some (JArr (JObj [(lit ''subject'', JStr (lit ''Hi'')),
           (lit ''from'',
              JObj [(lit ''emailAddress'',
                JObj [(lit ''name'', JStr (lit ''Bob'')),
                      (lit ''address'', JStr (lit ''bob@x.com''))])]),
           (lit ''receivedDateTime'', JStr (lit ''2024-01-01T12:34:56Z'')),
           (lit ''isRead'', JBool False),
           (lit ''bodyPreview'', JStr (lit ''Hello world''))] # []))"
    by (simp add: bob_message_def)
  have entry_eq:
    "lit ''From: '' @ lit ''Bob'' @ [10] @ lit ''Subject: '' @ lit ''Hi'' @ [10]
       @ lit ''Received: '' @ lit ''2024-01-01 12:34'' @ [10]
       @ lit ''Preview: '' @ lit ''Hello world'' @ lit ''...'' @ [10]
       @ replicate 50 45 @ [10] =
     lit ''From: ''
       @ py_str (mock_world cli_args creds_text token_ok (listing_of [bob_message]))
           (case map_of [(lit ''name'', JStr (lit ''Bob'')),
                         (lit ''address'', JStr (lit ''bob@x.com''))] (lit ''name'') of
              None \<Rightarrow> JStr (lit ''bob@x.com'') | Some n \<Rightarrow> n) @ [10]
       @ lit ''Subject: ''
       @ py_str (mock_world cli_args creds_text token_ok (listing_of [bob_message]))
           (case map_of [(lit ''subject'', JStr (lit ''Hi'')),
           (lit ''from'',
              JObj [(lit ''emailAddress'',
                JObj [(lit ''name'', JStr (lit ''Bob'')),
                      (lit ''address'', JStr (lit ''bob@x.com''))])]),
           (lit ''receivedDateTime'', JStr (lit ''2024-01-01T12:34:56Z'')),
           (lit ''isRead'', JBool False),
           (lit ''bodyPreview'', JStr (lit ''Hello world''))] (lit ''subject'') of
              None \<Rightarrow> JStr (lit ''(no subject)'') | Some x \<Rightarrow> x) @ [10]
       @ lit ''Received: ''
       @ map (\<lambda>c. if c = 84 then 32 else c) (take 16 (lit ''2024-01-01T12:34:56Z'')) @ [10]
       @ lit ''Preview: '' @ take 80 (lit ''Hello world'') @ lit ''...'' @ [10]
       @ replicate 50 45 @ [10]"
    by (simp add: names received preview)
  from show_email_prints
    [where w = "mock_world cli_args creds_text token_ok (listing_of [bob_message])"
       and r = token_ok and r' = "listing_of [bob_message]" and rest = "[]",
     OF keys entry_eq entry, THEN conjunct2, THEN conjunct2, rule_format,
     OF mock_argv mock_mailbox printable_lit mock_world_simps(3) _ mock_loads mock_keys
       mock_world_simps(4) token_ok_simps mock_world_simps(5) listing_of_simps(1,2) lst]
  show ?thesis
    by (simp add: mock_urls replicate_50) (simp add: str_nat.simps lit_def)
qed

text \<open>
  C4, as amended. When the listing endpoint answers 200 with an object whose \<open>value\<close> is
  the empty array (or is absent), the run prints the \<^verbatim>\<open>Checking\<close> line for the
  mailbox and then the single \<^verbatim>\<open>No unread emails\<close> line, prints no list, makes the
  three platform calls and ends with status 0. This is every run that gets as far as the
  listing: a mailbox argument that standard output cannot encode ends the run at the
  \<^verbatim>\<open>Checking\<close> line, before any call.
\<close>

theorem main_no_unread:
  assumes "argv w = script # m # rest" and "m \<noteq> []"
    and "subprocess_run w security_cmd = Inr p" and "returncode p = 0"
    and "json_loads w (strip (stdout p)) = Inr (JObj c)"
    and "map_of c (lit ''tenant_id'') = Some tid"
    and "map_of c (lit ''client_id'') = Some cid"
    and "map_of c (lit ''client_secret'') = Some sec"
    and "requests_post w (token_url w tid) (token_data cid sec) = Inr r"
    and "status_code r = 200" and "json r = Inr (JObj b)"
    and "map_of b (lit ''access_token'') = Some t"
    and "requests_get w (messages_url w (JStr m)) (auth_headers w t) (query_params True 10)
           = Inr r'"
    and "status_code r' = 200" and "json r' = Inr (JObj b')"
    and "map_of b' (lit ''value'') = None \<or> map_of b' (lit ''value'') = Some (JArr [])"
  shows "(printable w m \<longrightarrow>
       main w start =
         (Return (),
          \<lparr>printed = [128231] @ lit '' Checking '' @ m @ lit ''...'' @ [10]
             @ [9989] @ lit '' No unread emails'' @ [10],
           calls = [Run security_cmd, Post (token_url w tid) (token_data cid sec),
                    Get (messages_url w (JStr m)) (auth_headers w t)
                      (query_params True 10)]\<rparr>)
       \<and> exit_status (fst (main w start)) = 0)
     \<and> (\<not> printable w m \<longrightarrow> main w start = (Raise UnicodeEncodeError, start))"
proof (intro conjI impI)
  assume ok: "printable w m"
  show run: "main w start =
     (Return (),
      \<lparr>printed = [128231] @ lit '' Checking '' @ m @ lit ''...'' @ [10]
         @ [9989] @ lit '' No unread emails'' @ [10],
       calls = [Run security_cmd, Post (token_url w tid) (token_data cid sec),
                Get (messages_url w (JStr m)) (auth_headers w t) (query_params True 10)]\<rparr>)"
    using assms(10-16)
    by (auto simp add: main_run [OF assms(1,2) ok assms(3-9)] check_emails_step [OF assms(13)]
        bind_prog_def [of "check_emails w (JStr m) t True 10"] Let_def)
  show "exit_status (fst (main w start)) = 0"
    by (simp add: run exit_status_def)
next
  assume "\<not> printable w m"
  then show "main w start = (Raise UnicodeEncodeError, start)"
    by (rule main_unprintable [OF assms(1,2)])
qed

theorem main_no_unread_witness:
  "printable (mock_world cli_args creds_text token_ok (listing_of [])) (lit ''bob@x.com'') \<and>
   main (mock_world cli_args creds_text token_ok (listing_of [])) start =
     (Return (),
      \<lparr>printed = [128231] @ lit '' Checking bob@x.com...'' @ [10]
         @ [9989] @ lit '' No unread emails'' @ [10],
       calls = [Run security_cmd,
          Post (lit ''https://login.microsoftonline.com/t0/oauth2/v2.0/token'')
                 [(lit ''grant_type'', JStr (lit ''client_credentials'')),
                  (lit ''client_id'', JStr (lit ''c0'')),
                  (lit ''client_secret'', JStr (lit ''s0'')),
                  (lit ''scope'', JStr (lit ''https://graph.microsoft.com/.default''))],
          Get (lit ''https://graph.microsoft.com/v1.0/users/bob@x.com/messages'')
              [(lit ''Authorization'', lit ''Bearer T'')]
              (query_params True 10)]\<rparr>)
   \<and> exit_status (fst (main (mock_world cli_args creds_text token_ok (listing_of [])) start)) = 0"
proof -
  have lst: "map_of [(lit ''value'', JArr [])] (lit ''value'') = None \<or>
      map_of [(lit ''value'', JArr [])] (lit ''value'') = Some (JArr [])"
    by simp
  from main_no_unread
    [where w = "mock_world cli_args creds_text token_ok (listing_of [])"
       and r = token_ok and r' = "listing_of []",
     OF mock_argv mock_mailbox mock_world_simps(3) _ mock_loads mock_keys
       mock_world_simps(4) token_ok_simps mock_world_simps(5) listing_of_simps(1,2) lst,
     THEN conjunct1, rule_format, OF _ printable_lit]
  show ?thesis
    by (simp add: mock_urls token_data_def exit_status_def) (simp add: lit_def)
qed

text \<open>
  C4, as stated, fails: with the listing body \<^verbatim>\<open>{"value": []}\<close> the output is not
  the confirmation line alone, since the \<^verbatim>\<open>Checking\<close> line comes before it.
\<close>

theorem main_no_unread_counterexample:
  "json (listing_of []) = Inr (JObj [(lit ''value'', JArr [])]) \<and>
   calls (snd (main (mock_world cli_args creds_text token_ok (listing_of [])) start)) =
     [Run security_cmd,
      Post (lit ''https://login.microsoftonline.com/t0/oauth2/v2.0/token'')
        (token_data (JStr (lit ''c0'')) (JStr (lit ''s0''))),
      Get (lit ''https://graph.microsoft.com/v1.0/users/bob@x.com/messages'')
        [(lit ''Authorization'', lit ''Bearer T'')]
        (query_params True 10)] \<and>
   printed (snd (main (mock_world cli_args creds_text token_ok (listing_of [])) start)) \<noteq>
     [9989] @ lit '' No unread emails'' @ [10]"
  unfolding mock_main_empty
  by (simp add: listing_of_def)

text \<open>
  C5. The code does not do this. With a lookup that exits zero and an output that is not
  JSON, \<open>get_credentials\<close> raises the parser's exception, prints no diagnostic, and
  the run ends there; with an output that is JSON but lacks the fields, it returns the
  value as it is and \<open>get_token\<close> raises KeyError for \<open>tenant_id\<close>.
\<close>

theorem get_credentials_malformed:
  "get_credentials (mock_world cli_args (lit ''not json'') token_ok (listing_of [])) start =
     (Raise JSONDecodeError, \<lparr>printed = [], calls = [Run security_cmd]\<rparr>)
   \<and> main (mock_world cli_args (lit ''not json'') token_ok (listing_of [])) start =
     (Raise JSONDecodeError,
      \<lparr>printed = [128231] @ lit '' Checking bob@x.com...'' @ [10],
       calls = [Run security_cmd]\<rparr>)
   \<and> get_credentials (mock_world cli_args (lit ''{}'') token_ok (listing_of [])) start =
     (Return (JObj []), \<lparr>printed = [], calls = [Run security_cmd]\<rparr>)
   \<and> main (mock_world cli_args (lit ''{}'') token_ok (listing_of [])) start =
     (Raise (KeyError (lit ''tenant_id'')),
      \<lparr>printed = [128231] @ lit '' Checking bob@x.com...'' @ [10],
       calls = [Run security_cmd]\<rparr>)"
proof -
  have strip1: "strip (lit ''not json'' @ [10]) = lit ''not json''"
    by (simp add: strip_def isspace_def lit_def)
  have strip2: "strip (lit ''{}'' @ [10]) = lit ''{}''"
    by (simp add: strip_def isspace_def lit_def)
  have ne1: "lit ''not json'' \<noteq> creds_text" "lit ''not json'' \<noteq> lit ''{}''"
    by (simp_all add: creds_text_def lit_def)
  have ne2: "lit ''{}'' \<noteq> creds_text"
    by (simp add: creds_text_def lit_def quoted_def)
  have loads1:
    "json_loads (mock_world cli_args (lit ''not json'') token_ok (listing_of []))
       (lit ''not json'') = Inl JSONDecodeError"
    using ne1 by (simp add: mock_world_def)
  have loads2:
    "json_loads (mock_world cli_args (lit ''{}'') token_ok (listing_of [])) (lit ''{}'')
       = Inr (JObj [])"
    using ne2 by (simp add: mock_world_def)
  have c1: "get_credentials (mock_world cli_args (lit ''not json'') token_ok (listing_of [])) st =
     (Raise JSONDecodeError, st\<lparr>calls := calls st @ [Run security_cmd]\<rparr>)" for st
    by (simp add: get_credentials_step [of _ "\<lparr>returncode = 0, stdout = lit ''not json'' @ [10]\<rparr>"]
         mock_world_simps strip1 loads1)
  have c2: "get_credentials (mock_world cli_args (lit ''{}'') token_ok (listing_of [])) st =
     (Return (JObj []), st\<lparr>calls := calls st @ [Run security_cmd]\<rparr>)" for st
    by (simp add: get_credentials_step [of _ "\<lparr>returncode = 0, stdout = lit ''{}'' @ [10]\<rparr>"]
         mock_world_simps strip2 loads2)
  have t2: "get_token w (JObj []) st = (Raise (KeyError (lit ''tenant_id'')), st)" for w st
    by (simp add: get_token_def)
  have m1: "main (mock_world cli_args (lit ''not json'') token_ok (listing_of [])) start =
     (Raise JSONDecodeError,
      \<lparr>printed = [128231] @ lit '' Checking bob@x.com...'' @ [10],
       calls = [Run security_cmd]\<rparr>)"
    by (simp add: main_def mock_argv start_def bind_prog_eq [OF c1] Let_def
         lit_eq_Nil)
      (simp add: lit_def)
  have m2: "main (mock_world cli_args (lit ''{}'') token_ok (listing_of [])) start =
     (Raise (KeyError (lit ''tenant_id'')),
      \<lparr>printed = [128231] @ lit '' Checking bob@x.com...'' @ [10],
       calls = [Run security_cmd]\<rparr>)"
    by (simp add: main_def mock_argv start_def bind_prog_eq [OF c2]
         bind_prog_eq [OF t2] Let_def lit_eq_Nil)
      (simp add: lit_def)
  show ?thesis
    unfolding m1 m2 c1 c2 by (simp add: start_def)
qed





text \<open>
  C8. Started with no mailbox argument, the run prints the two usage lines and ends with
  status 1, without any platform call: no secret-store lookup, no HTTP request.
\<close>

theorem main_no_argument:
  assumes "length (argv w) \<le> 1"
  shows "main w start =
     (Exit 1,
      \<lparr>printed = lit ''Usage: python3 email-check.py user@domain.com'' @ [10]
         @ lit ''Set your mailbox as the first argument'' @ [10],
       calls = []\<rparr>)
     \<and> exit_status (fst (main w start)) = 1"
  using assms by (simp add: main_def usage_step start_def exit_status_def)

theorem main_no_argument_witness:
  "length (argv (mock_world [lit ''email-check.py''] creds_text token_ok (listing_of []))) \<le> 1
   \<and> main (mock_world [lit ''email-check.py''] creds_text token_ok (listing_of [])) start =
     (Exit 1,
      \<lparr>printed = lit ''Usage: python3 email-check.py user@domain.com'' @ [10]
         @ lit ''Set your mailbox as the first argument'' @ [10],
       calls = []\<rparr>)"
  using main_no_argument
    [of "mock_world [lit ''email-check.py''] creds_text token_ok (listing_of [])"]
  by (simp add: mock_world_simps)

text \<open>
  C9, as amended. For a message that is a JSON object, the loop body raises KeyError,
  printing nothing for it: for \<open>address\<close> when the sender object has no \<open>address\<close>
  (whether or not it has a \<open>name\<close>), for \<open>from\<close> when the message has no \<open>from\<close>,
  and for \<open>receivedDateTime\<close> when the message has none and its sender object is
  complete. The loop passes the exception on, and a run of \<open>main\<close> whose listing has
  such a message first ends with it, uncaught, after the \<^verbatim>\<open>Checking\<close> line and the
  line with the number of messages, with exit status 1.
\<close>

theorem show_email_key_errors:
  assumes "map_of e (lit ''from'') = Some f \<and>
       getitem f (lit ''emailAddress'') = Inr (JObj s) \<and>
       map_of s (lit ''address'') = None \<and> k = lit ''address''
     \<or> map_of e (lit ''from'') = None \<and> k = lit ''from''
     \<or> map_of e (lit ''from'') = Some f \<and>
       getitem f (lit ''emailAddress'') = Inr (JObj s) \<and>
       map_of s (lit ''address'') = Some a \<and>
       map_of e (lit ''receivedDateTime'') = None \<and> k = lit ''receivedDateTime''"
  shows "show_email w (JObj e) st = (Raise (KeyError k), st)
     \<and> show_emails w (JObj e # later) st = (Raise (KeyError k), st)
     \<and> (argv w = script # m # args \<longrightarrow> m \<noteq> [] \<longrightarrow> printable w m \<longrightarrow>
        subprocess_run w security_cmd = Inr p \<longrightarrow> returncode p = 0 \<longrightarrow>
        json_loads w (strip (stdout p)) = Inr (JObj c) \<longrightarrow>
        map_of c (lit ''tenant_id'') = Some tid \<longrightarrow>
        map_of c (lit ''client_id'') = Some cid \<longrightarrow>
        map_of c (lit ''client_secret'') = Some sec \<longrightarrow>
        requests_post w (token_url w tid) (token_data cid sec) = Inr r \<longrightarrow>
        status_code r = 200 \<longrightarrow> json r = Inr (JObj b) \<longrightarrow>
        map_of b (lit ''access_token'') = Some t \<longrightarrow>
        requests_get w (messages_url w (JStr m)) (auth_headers w t) (query_params True 10)
          = Inr r' \<longrightarrow>
        status_code r' = 200 \<longrightarrow> json r' = Inr (JObj b') \<longrightarrow>
        map_of b' (lit ''value'') = Some (JArr (JObj e # rest)) \<longrightarrow>
        main w start =
          (Raise (KeyError k),
           \<lparr>printed = [128231] @ lit '' Checking '' @ m @ lit ''...'' @ [10]
              @ [10, 128236] @ lit '' '' @ str_nat (Suc (length rest))
              @ lit '' unread email(s):'' @ [10] @ [10],
            calls = [Run security_cmd, Post (token_url w tid) (token_data cid sec),
                     Get (messages_url w (JStr m)) (auth_headers w t)
                       (query_params True 10)]\<rparr>)
        \<and> exit_status (fst (main w start)) = 1)"
proof -
  have one: "show_email w (JObj e) st = (Raise (KeyError k), st)" for st
    using assms by (auto simp add: show_email_def)
  have step: "show_emails w (JObj e # later) st = (Raise (KeyError k), st)" for later st
    by (simp add: one then_prog_def bind_prog_def)
  have run: "main w start =
          (Raise (KeyError k),
           \<lparr>printed = [128231] @ lit '' Checking '' @ m @ lit ''...'' @ [10]
              @ [10, 128236] @ lit '' '' @ str_nat (Suc (length rest))
              @ lit '' unread email(s):'' @ [10] @ [10],
            calls = [Run security_cmd, Post (token_url w tid) (token_data cid sec),
                     Get (messages_url w (JStr m)) (auth_headers w t)
                       (query_params True 10)]\<rparr>)"
    if "argv w = script # m # args" "m \<noteq> []" "printable w m"
      "subprocess_run w security_cmd = Inr p" "returncode p = 0"
      "json_loads w (strip (stdout p)) = Inr (JObj c)"
      "map_of c (lit ''tenant_id'') = Some tid"
      "map_of c (lit ''client_id'') = Some cid"
      "map_of c (lit ''client_secret'') = Some sec"
      "requests_post w (token_url w tid) (token_data cid sec) = Inr r"
      "status_code r = 200" "json r = Inr (JObj b)"
      "map_of b (lit ''access_token'') = Some t"
      "requests_get w (messages_url w (JStr m)) (auth_headers w t) (query_params True 10)
          = Inr r'"
      "status_code r' = 200" "json r' = Inr (JObj b')"
      "map_of b' (lit ''value'') = Some (JArr (JObj e # rest))"
    unfolding main_listing [OF that] step by simp
  have status: "exit_status (fst (main w start)) = 1"
    if "main w start = (Raise (KeyError k), st')" for st'
    by (simp add: that exit_status_def)
  from one step run status show ?thesis by blast
qed

theorem show_email_key_errors_witness:
  "main (mock_world cli_args creds_text token_ok (listing_of
      [JObj [(lit ''from'',
               JObj [(lit ''emailAddress'', JObj [(lit ''name'', JStr (lit ''Bob''))])]),
             (lit ''receivedDateTime'', JStr (lit ''2024-01-01T12:34:56Z''))],
       bob_message])) start =
     (Raise (KeyError (lit ''address'')),
      \<lparr>printed = [128231] @ lit '' Checking bob@x.com...'' @ [10]
         @ [10, 128236] @ lit '' 2 unread email(s):'' @ [10] @ [10],
       calls = [Run security_cmd,
          Post (lit ''https://login.microsoftonline.com/t0/oauth2/v2.0/token'')
            (token_data (JStr (lit ''c0'')) (JStr (lit ''s0''))),
          Get (lit ''https://graph.microsoft.com/v1.0/users/bob@x.com/messages'')
            [(lit ''Authorization'', lit ''Bearer T'')]
            (query_params True 10)]\<rparr>)
   \<and> fst (main (mock_world cli_args creds_text token_ok (listing_of
      [JObj [(lit ''subject'', JStr (lit ''Hi'')),
             (lit ''receivedDateTime'', JStr (lit ''2024-01-01T12:34:56Z''))],
       bob_message])) start) =
     Raise (KeyError (lit ''from''))
   \<and> fst (main (mock_world cli_args creds_text token_ok (listing_of
      [JObj [(lit ''from'',
               JObj [(lit ''emailAddress'',
                 JObj [(lit ''name'', JStr (lit ''Bob'')),
                       (lit ''address'', JStr (lit ''bob@x.com''))])]),
             (lit ''subject'', JStr (lit ''Hi''))],
       bob_message])) start) =
     Raise (KeyError (lit ''receivedDateTime''))"
proof -
  have h1: "map_of [(lit ''from'',
               JObj [(lit ''emailAddress'', JObj [(lit ''name'', JStr (lit ''Bob''))])]),
             (lit ''receivedDateTime'', JStr (lit ''2024-01-01T12:34:56Z''))] (lit ''from'') =
         Some (JObj [(lit ''emailAddress'', JObj [(lit ''name'', JStr (lit ''Bob''))])]) \<and>
       getitem (JObj [(lit ''emailAddress'', JObj [(lit ''name'', JStr (lit ''Bob''))])])
         (lit ''emailAddress'') = Inr (JObj [(lit ''name'', JStr (lit ''Bob''))]) \<and>
       map_of [(lit ''name'', JStr (lit ''Bob''))] (lit ''address'') = None \<and>
       lit ''address'' = lit ''address''
     \<or> map_of [(lit ''from'',
               JObj [(lit ''emailAddress'', JObj [(lit ''name'', JStr (lit ''Bob''))])]),
             (lit ''receivedDateTime'', JStr (lit ''2024-01-01T12:34:56Z''))] (lit ''from'') =
         None \<and> lit ''address'' = lit ''from''
     \<or> map_of [(lit ''from'',
               JObj [(lit ''emailAddress'', JObj [(lit ''name'', JStr (lit ''Bob''))])]),
             (lit ''receivedDateTime'', JStr (lit ''2024-01-01T12:34:56Z''))] (lit ''from'') =
         Some (JObj [(lit ''emailAddress'', JObj [(lit ''name'', JStr (lit ''Bob''))])]) \<and>
       getitem (JObj [(lit ''emailAddress'', JObj [(lit ''name'', JStr (lit ''Bob''))])])
         (lit ''emailAddress'') = Inr (JObj [(lit ''name'', JStr (lit ''Bob''))]) \<and>
       map_of [(lit ''name'', JStr (lit ''Bob''))] (lit ''address'') = Some JNull \<and>
       map_of [(lit ''from'',
               JObj [(lit ''emailAddress'', JObj [(lit ''name'', JStr (lit ''Bob''))])]),
             (lit ''receivedDateTime'', JStr (lit ''2024-01-01T12:34:56Z''))]
         (lit ''receivedDateTime'') = None \<and>
       lit ''address'' = lit ''receivedDateTime''"
    by (simp add: lit_def)
  have h2: "map_of [(lit ''subject'', JStr (lit ''Hi'')),
             (lit ''receivedDateTime'', JStr (lit ''2024-01-01T12:34:56Z''))] (lit ''from'') =
         Some JNull \<and>
       getitem JNull (lit ''emailAddress'') = Inr (JObj []) \<and>
       map_of [] (lit ''address'') = None \<and> lit ''from'' = lit ''address''
     \<or> map_of [(lit ''subject'', JStr (lit ''Hi'')),
             (lit ''receivedDateTime'', JStr (lit ''2024-01-01T12:34:56Z''))] (lit ''from'') =
         None \<and> lit ''from'' = lit ''from''
     \<or> map_of [(lit ''subject'', JStr (lit ''Hi'')),
             (lit ''receivedDateTime'', JStr (lit ''2024-01-01T12:34:56Z''))] (lit ''from'') =
         Some JNull \<and>
       getitem JNull (lit ''emailAddress'') = Inr (JObj []) \<and>
       map_of [] (lit ''address'') = Some JNull \<and>
       map_of [(lit ''subject'', JStr (lit ''Hi'')),
             (lit ''receivedDateTime'', JStr (lit ''2024-01-01T12:34:56Z''))]
         (lit ''receivedDateTime'') = None \<and>
       lit ''from'' = lit ''receivedDateTime''"
    by (simp add: lit_def)
  have h3: "map_of [(lit ''from'',
               JObj [(lit ''emailAddress'',
                 JObj [(lit ''name'', JStr (lit ''Bob'')),
                       (lit ''address'', JStr (lit ''bob@x.com''))])]),
             (lit ''subject'', JStr (lit ''Hi''))] (lit ''from'') =
         Some (JObj [(lit ''emailAddress'',
                 JObj [(lit ''name'', JStr (lit ''Bob'')),
                       (lit ''address'', JStr (lit ''bob@x.com''))])]) \<and>
       getitem (JObj [(lit ''emailAddress'',
                 JObj [(lit ''name'', JStr (lit ''Bob'')),
                       (lit ''address'', JStr (lit ''bob@x.com''))])])
         (lit ''emailAddress'') =
         Inr (JObj [(lit ''name'', JStr (lit ''Bob'')),
                    (lit ''address'', JStr (lit ''bob@x.com''))]) \<and>
       map_of [(lit ''name'', JStr (lit ''Bob'')),
               (lit ''address'', JStr (lit ''bob@x.com''))] (lit ''address'') = None \<and>
       lit ''receivedDateTime'' = lit ''address''
     \<or> map_of [(lit ''from'',
               JObj [(lit ''emailAddress'',
                 JObj [(lit ''name'', JStr (lit ''Bob'')),
                       (lit ''address'', JStr (lit ''bob@x.com''))])]),
             (lit ''subject'', JStr (lit ''Hi''))] (lit ''from'') = None \<and>
       lit ''receivedDateTime'' = lit ''from''
     \<or> map_of [(lit ''from'',
               JObj [(lit ''emailAddress'',
                 JObj [(lit ''name'', JStr (lit ''Bob'')),
                       (lit ''address'', JStr (lit ''bob@x.com''))])]),
             (lit ''subject'', JStr (lit ''Hi''))] (lit ''from'') =
         Some (JObj [(lit ''emailAddress'',
                 JObj [(lit ''name'', JStr (lit ''Bob'')),
                       (lit ''address'', JStr (lit ''bob@x.com''))])]) \<and>
       getitem (JObj [(lit ''emailAddress'',
                 JObj [(lit ''name'', JStr (lit ''Bob'')),
                       (lit ''address'', JStr (lit ''bob@x.com''))])])
         (lit ''emailAddress'') =
         Inr (JObj [(lit ''name'', JStr (lit ''Bob'')),
                    (lit ''address'', JStr (lit ''bob@x.com''))]) \<and>
       map_of [(lit ''name'', JStr (lit ''Bob'')),
               (lit ''address'', JStr (lit ''bob@x.com''))] (lit ''address'') =
         Some (JStr (lit ''bob@x.com'')) \<and>
       map_of [(lit ''from'',
               JObj [(lit ''emailAddress'',
                 JObj [(lit ''name'', JStr (lit ''Bob'')),
                       (lit ''address'', JStr (lit ''bob@x.com''))])]),
             (lit ''subject'', JStr (lit ''Hi''))] (lit ''receivedDateTime'') = None \<and>
       lit ''receivedDateTime'' = lit ''receivedDateTime''"
    by (simp add: lit_def)
  note run = mock_argv mock_mailbox printable_lit mock_world_simps(3) mock_returncode mock_loads
    mock_keys mock_world_simps(4) token_ok_simps mock_world_simps(5) listing_of_simps
  from show_email_key_errors
    [where w = "mock_world cli_args creds_text token_ok (listing_of
      [JObj [(lit ''from'',
               JObj [(lit ''emailAddress'', JObj [(lit ''name'', JStr (lit ''Bob''))])]),
             (lit ''receivedDateTime'', JStr (lit ''2024-01-01T12:34:56Z''))],
       bob_message])",
     OF h1, THEN conjunct2, THEN conjunct2, rule_format, THEN conjunct1, OF run]
  have r1: "main (mock_world cli_args creds_text token_ok (listing_of
      [JObj [(lit ''from'',
               JObj [(lit ''emailAddress'', JObj [(lit ''name'', JStr (lit ''Bob''))])]),
             (lit ''receivedDateTime'', JStr (lit ''2024-01-01T12:34:56Z''))],
       bob_message])) start =
     (Raise (KeyError (lit ''address'')),
      \<lparr>printed = [128231] @ lit '' Checking bob@x.com...'' @ [10]
         @ [10, 128236] @ lit '' 2 unread email(s):'' @ [10] @ [10],
       calls = [Run security_cmd,
          Post (lit ''https://login.microsoftonline.com/t0/oauth2/v2.0/token'')
            (token_data (JStr (lit ''c0'')) (JStr (lit ''s0''))),
          Get (lit ''https://graph.microsoft.com/v1.0/users/bob@x.com/messages'')
            [(lit ''Authorization'', lit ''Bearer T'')]
            (query_params True 10)]\<rparr>)"
    by (simp add: mock_urls) (simp add: str_nat.simps lit_def)
  from show_email_key_errors
    [where w = "mock_world cli_args creds_text token_ok (listing_of
      [JObj [(lit ''subject'', JStr (lit ''Hi'')),
             (lit ''receivedDateTime'', JStr (lit ''2024-01-01T12:34:56Z''))],
       bob_message])",
     OF h2, THEN conjunct2, THEN conjunct2, rule_format, THEN conjunct1, OF run]
  have r2: "fst (main (mock_world cli_args creds_text token_ok (listing_of
      [JObj [(lit ''subject'', JStr (lit ''Hi'')),
             (lit ''receivedDateTime'', JStr (lit ''2024-01-01T12:34:56Z''))],
       bob_message])) start) =
     Raise (KeyError (lit ''from''))"
    by simp
  from show_email_key_errors
    [where w = "mock_world cli_args creds_text token_ok (listing_of
      [JObj [(lit ''from'',
               JObj [(lit ''emailAddress'',
                 JObj [(lit ''name'', JStr (lit ''Bob'')),
                       (lit ''address'', JStr (lit ''bob@x.com''))])]),
             (lit ''subject'', JStr (lit ''Hi''))],
       bob_message])",
     OF h3, THEN conjunct2, THEN conjunct2, rule_format, THEN conjunct1, OF run]
  have r3: "fst (main (mock_world cli_args creds_text token_ok (listing_of
      [JObj [(lit ''from'',
               JObj [(lit ''emailAddress'',
                 JObj [(lit ''name'', JStr (lit ''Bob'')),
                       (lit ''address'', JStr (lit ''bob@x.com''))])]),
             (lit ''subject'', JStr (lit ''Hi''))],
       bob_message])) start) =
     Raise (KeyError (lit ''receivedDateTime''))"
    by simp
  from r1 r2 r3 show ?thesis by simp
qed

text \<open>
  C9, as stated, fails for a message with no \<open>receivedDateTime\<close> whose \<open>from\<close> is
  \<^verbatim>\<open>null\<close>: the run ends with TypeError at \<^verbatim>\<open>email['from']['emailAddress']\<close>, not
  with KeyError.
\<close>

theorem show_email_key_errors_counterexample:
  "map_of [(lit ''from'', JNull), (lit ''subject'', JStr (lit ''Hi''))]
     (lit ''receivedDateTime'') = None \<and>
   main (mock_world cli_args creds_text token_ok (listing_of
      [JObj [(lit ''from'', JNull), (lit ''subject'', JStr (lit ''Hi''))]])) start =
     (Raise TypeError,
      \<lparr>printed = [128231] @ lit '' Checking bob@x.com...'' @ [10]
         @ [10, 128236] @ lit '' 1 unread email(s):'' @ [10] @ [10],
       calls = [Run security_cmd,
          Post (lit ''https://login.microsoftonline.com/t0/oauth2/v2.0/token'')
            (token_data (JStr (lit ''c0'')) (JStr (lit ''s0''))),
          Get (lit ''https://graph.microsoft.com/v1.0/users/bob@x.com/messages'')
            [(lit ''Authorization'', lit ''Bearer T'')]
            (query_params True 10)]\<rparr>)"
proof -
  have body: "show_email w (JObj [(lit ''from'', JNull), (lit ''subject'', JStr (lit ''Hi''))])
      st = (Raise TypeError, st)" for w st
    by (simp add: show_email_def)
  have loop: "show_emails w [JObj [(lit ''from'', JNull), (lit ''subject'', JStr (lit ''Hi''))]]
      st = (Raise TypeError, st)" for w st
    by (simp add: body then_prog_def bind_prog_def)
  have run: "main (mock_world cli_args creds_text token_ok (listing_of
      [JObj [(lit ''from'', JNull), (lit ''subject'', JStr (lit ''Hi''))]])) start =
     (Raise TypeError,
      \<lparr>printed = [128231] @ lit '' Checking '' @ lit ''bob@x.com'' @ lit ''...'' @ [10]
          @ [10, 128236] @ lit '' '' @ str_nat (Suc (length ([] :: jvalue list)))
          @ lit '' unread email(s):'' @ [10] @ [10],
       calls = [Run security_cmd,
          Post (token_url (mock_world cli_args creds_text token_ok (listing_of
              [JObj [(lit ''from'', JNull), (lit ''subject'', JStr (lit ''Hi''))]]))
            (JStr (lit ''t0''))) (token_data (JStr (lit ''c0'')) (JStr (lit ''s0''))),
          Get (messages_url (mock_world cli_args creds_text token_ok (listing_of
              [JObj [(lit ''from'', JNull), (lit ''subject'', JStr (lit ''Hi''))]]))
            (JStr (lit ''bob@x.com'')))
            (auth_headers (mock_world cli_args creds_text token_ok (listing_of
              [JObj [(lit ''from'', JNull), (lit ''subject'', JStr (lit ''Hi''))]]))
              (JStr (lit ''T'')))
            (query_params True 10)]\<rparr>)"
    unfolding main_listing
      [where w = "mock_world cli_args creds_text token_ok (listing_of
          [JObj [(lit ''from'', JNull), (lit ''subject'', JStr (lit ''Hi''))]])",
       OF mock_argv mock_mailbox printable_lit mock_world_simps(3) mock_returncode mock_loads
         mock_keys mock_world_simps(4) token_ok_simps mock_world_simps(5) listing_of_simps]
      loop
    by simp
  show ?thesis
    unfolding run by (simp add: mock_urls) (simp add: str_nat.simps lit_def)
qed

text \<open>
  C10. Started with the empty string as first argument, the run is the run with no
  argument at all: the two usage lines, status 1, no platform call.
\<close>

theorem main_empty_argument:
  assumes "argv w = script # [] # rest"
  shows "main w st = main (w\<lparr>argv := [script]\<rparr>) st \<and>
     main w start =
       (Exit 1,
        \<lparr>printed = lit ''Usage: python3 email-check.py user@domain.com'' @ [10]
           @ lit ''Set your mailbox as the first argument'' @ [10],
         calls = []\<rparr>)"
  using assms by (simp add: main_def usage_step start_def)

theorem main_empty_argument_witness:
  "main (mock_world [lit ''email-check.py'', []] creds_text token_ok (listing_of [])) start =
     main (mock_world [lit ''email-check.py''] creds_text token_ok (listing_of [])) start
   \<and> main (mock_world [lit ''email-check.py'', []] creds_text token_ok (listing_of [])) start =
     (Exit 1,
      \<lparr>printed = lit ''Usage: python3 email-check.py user@domain.com'' @ [10]
         @ lit ''Set your mailbox as the first argument'' @ [10],
       calls = []\<rparr>)"
proof -
  have args:
    "argv (mock_world [lit ''email-check.py'', []] creds_text token_ok (listing_of [])) =
       lit ''email-check.py'' # [] # []"
    by (simp add: mock_world_simps)
  have upd:
    "(mock_world [lit ''email-check.py'', []] creds_text token_ok (listing_of []))
       \<lparr>argv := [lit ''email-check.py'']\<rparr> =
     mock_world [lit ''email-check.py''] creds_text token_ok (listing_of [])"
    by (simp add: mock_world_def)
  from main_empty_argument [OF args, of start] show ?thesis
    unfolding upd .
qed

end
